theory Spec2Isabelle
  imports Main "HOL-Library.Word"
begin

section \<open>The session orchestrator of js/main/agent.js\<close>

text \<open>
  The class \<open>GeminiAgent\<close> binds a websocket client, an audio streamer, an audio recorder,
  a visualizer, two optional transcribers, a camera manager and a screen manager. Those
  collaborators live in other modules; the orchestrator only calls them. The embedding
  keeps the orchestrator's own fields in a record, passes that record through every
  method, and appends every call made on a collaborator to the field \<open>calls\<close>, in program
  order. A method returns the value it throws (if any) together with the record as the
  method left it, because a JavaScript method that throws keeps the assignments it made
  before the throw. Every method is one atomic step: the interleavings that \<open>await\<close>
  permits between two methods are outside the model, and so is a promise that never
  settles.
\<close>

subsection \<open>Thrown values\<close>

text \<open>
  \<open>Error m\<close> is \<open>new Error(m)\<close> for a literal \<open>m\<close>. \<open>TypeError p\<close> is the engine's error for
  reading property \<open>p\<close> of \<open>null\<close> or \<open>undefined\<close> (the message text is engine-defined, so
  only the property is kept). \<open>ErrorConcat m e\<close> is \<open>new Error(m + e)\<close> and
  \<open>ErrorConcatMessage m e\<close> is \<open>new Error(m + e.message)\<close>.
\<close>

datatype error =
    Error string
  | TypeError string
  | ErrorConcat string error
  | ErrorConcatMessage string error

subsection \<open>Collaborator objects\<close>

type_synonym byte = "8 word"

text \<open>A timer handle of the browser: a positive integer, hence always truthy.\<close>

datatype timerId = TimerId nat

datatype timerKind = CameraCapture | ScreenCapture | ModelsKeepAlive | UserKeepAlive

record functionCall =
  fc_id :: string
  fc_name :: string
  fc_args :: string

record toolCall =
  functionCalls :: "functionCall list"

record toolResponse =
  tr_id :: string
  tr_response :: string

text \<open>
  The tool manager (js/tools/tool-manager.js) is a constructor argument. Its two methods
  are parameters of the model: the declarations it reports (\<open>None\<close> for a falsy result) and
  its handler, which receives \<open>functionCalls[0]\<close> (\<open>None\<close> when that is \<open>undefined\<close>) and
  resolves to a response or rejects.
\<close>

record toolManager =
  getToolDeclarations :: "string list option"
  tm_handleToolCall :: "functionCall option \<Rightarrow> error + toolResponse"

text \<open>The configuration object; \<open>cfg_tools\<close> is \<open>config.tools\<close>, which may be missing.\<close>

record config =
  cfg_model :: string
  cfg_tools :: "string list option"

record CameraManager =
  cam_width :: string
  cam_quality :: string
  cam_facingMode :: string

record ScreenManager =
  scr_width :: string
  scr_quality :: string

record AudioStreamer =
  isInitialized :: bool

record DeepgramTranscriber =
  dg_sampleRate :: "nat option"
  isConnected :: bool
  dg_handlers :: "string list"

record GeminiWebsocketClient =
  ws_name :: "string option"
  ws_open :: bool
  ws_handlers :: "string list"

subsection \<open>Calls on collaborators\<close>

datatype call =
    Client_connect
  | Client_on string
  | Client_sendText string
  | Client_sendImage string
  | Client_sendToolResponse toolResponse
  | Client_disconnect
  | ToolManager_handleToolCall "functionCall option"
  | AudioContext_new
  | AudioContext_close
  | Streamer_initialize
  | Streamer_streamAudio "byte list"
  | Streamer_stop
  | GainNode_connect
  | Visualizer_start
  | Visualizer_cleanup
  | Recorder_stop
  | ModelTranscriber_connect
  | ModelTranscriber_sendAudio "byte list"
  | ModelTranscriber_send_KeepAlive
  | ModelTranscriber_disconnect
  | UserTranscriber_connect
  | UserTranscriber_send_KeepAlive
  | UserTranscriber_disconnect
  | Camera_initialize
  | Camera_capture
  | Camera_dispose
  | Screen_initialize
  | Screen_capture
  | Screen_dispose
  | SetInterval timerId timerKind
  | ClearInterval timerId
  | Listener nat string "string option"

subsection \<open>The agent\<close>

text \<open>
  The fields of \<open>this\<close>. A field that holds \<open>null\<close> or was never assigned is \<open>None\<close>.
  \<open>eventListeners\<close> is the \<open>Map\<close> from event name to callbacks (callbacks are numbered;
  a missing \<open>Map\<close> behaves as the empty one). The last three fields are the environment:
  the live interval timers of the window, the next timer handle, and the call log.
  \<open>captureInterval\<close> (a floating-point period) is left out. \<open>toolManager\<close> is never
  \<open>null\<close> in an agent that exists: the constructor throws on a missing tool manager.
\<close>

record GeminiAgent =
  initialized :: bool
  connected :: bool
  audioContext :: "unit option"
  audioRecorder :: "unit option"
  audioStreamer :: "AudioStreamer option"
  visualizer :: "unit option"
  modelTranscriber :: "DeepgramTranscriber option"
  userTranscriber :: "DeepgramTranscriber option"
  modelsKeepAliveInterval :: "timerId option"
  userKeepAliveInterval :: "timerId option"
  transcribeModelsSpeech :: "bool option"
  transcribeUsersSpeech :: "bool option"
  deepgramApiKey :: "string option"
  modelSampleRate :: "nat option"
  fps :: string
  resizeWidth :: string
  quality :: string
  cameraManager :: "CameraManager option"
  cameraInterval :: "timerId option"
  screenManager :: "ScreenManager option"
  screenInterval :: "timerId option"
  toolManager :: toolManager
  config :: config
  name :: "string option"
  url :: string
  client :: "GeminiWebsocketClient option"
  eventListeners :: "string \<rightharpoonup> nat list"
  timers :: "(timerId \<times> timerKind) list"
  nextTimer :: nat
  calls :: "call list"

definition record_call :: "call \<Rightarrow> GeminiAgent \<Rightarrow> GeminiAgent" where
  "record_call c s = s\<lparr>calls := calls s @ [c]\<rparr>"

text \<open>\<open>setInterval\<close> hands out a fresh positive handle and registers the timer.\<close>

definition setInterval :: "timerKind \<Rightarrow> GeminiAgent \<Rightarrow> timerId \<times> GeminiAgent" where
  "setInterval k s =
     (let t = TimerId (Suc (nextTimer s))
      in (t, s\<lparr>timers := timers s @ [(t, k)],
               nextTimer := Suc (nextTimer s),
               calls := calls s @ [SetInterval t k]\<rparr>))"

definition clearInterval :: "timerId \<Rightarrow> GeminiAgent \<Rightarrow> GeminiAgent" where
  "clearInterval t s =
     s\<lparr>timers := filter (\<lambda>p. fst p \<noteq> t) (timers s),
       calls := calls s @ [ClearInterval t]\<rparr>"

text \<open>The live timers of one kind.\<close>

definition live :: "timerKind \<Rightarrow> GeminiAgent \<Rightarrow> timerId list" where
  "live k s = map fst (filter (\<lambda>p. snd p = k) (timers s))"

subsection \<open>The event emitter (agent.js, lines 431-449)\<close>

definition on :: "string \<Rightarrow> nat \<Rightarrow> GeminiAgent \<Rightarrow> GeminiAgent" where
  "on eventName callback s =
     (case eventListeners s eventName of
        None \<Rightarrow> s\<lparr>eventListeners := (eventListeners s)(eventName \<mapsto> [callback])\<rparr>
      | Some cbs \<Rightarrow> s\<lparr>eventListeners := (eventListeners s)(eventName \<mapsto> cbs @ [callback])\<rparr>)"

definition emit :: "string \<Rightarrow> string option \<Rightarrow> GeminiAgent \<Rightarrow> GeminiAgent" where
  "emit eventName data s =
     (case eventListeners s eventName of
        None \<Rightarrow> s
      | Some cbs \<Rightarrow> s\<lparr>calls := calls s @ map (\<lambda>cb. Listener cb eventName data) cbs\<rparr>)"

subsection \<open>The constructor (agent.js, lines 18-83)\<close>

text \<open>
  A property of the destructured argument that has a default other than \<open>null\<close>: it is
  omitted (\<open>undefined\<close>), \<open>null\<close>, or given. A destructuring default replaces \<open>undefined\<close>
  only, so an explicit \<open>null\<close> stays \<open>null\<close> (\<open>None\<close> in the agent's field).
\<close>

datatype 'a property = Omitted | Null | Given 'a

definition default_to :: "'a \<Rightarrow> 'a property \<Rightarrow> 'a option" where
  "default_to d p = (case p of Omitted \<Rightarrow> Some d | Null \<Rightarrow> None | Given v \<Rightarrow> Some v)"

text \<open>
  The destructured argument. For \<open>url\<close> and \<open>config\<close> (no default, tested with \<open>!\<close>) and
  for \<open>deepgramApiKey\<close> and \<open>toolManager\<close> (default \<open>null\<close>), \<open>undefined\<close> and \<open>null\<close> behave
  alike and both are \<open>None\<close>. A string is falsy when it is empty.
\<close>

record agentArgs =
  arg_name :: "string property"
  arg_url :: "string option"
  arg_config :: "config option"
  arg_deepgramApiKey :: "string option"
  arg_transcribeModelsSpeech :: "bool property"
  arg_transcribeUsersSpeech :: "bool property"
  arg_modelSampleRate :: "nat property"
  arg_toolManager :: "toolManager option"

definition truthy :: "string option \<Rightarrow> bool" where
  "truthy v = (case v of None \<Rightarrow> False | Some x \<Rightarrow> x \<noteq> [])"

text \<open>\<open>localStorage.getItem(k) || d\<close>\<close>

definition getItem_or :: "(string \<rightharpoonup> string) \<Rightarrow> string \<Rightarrow> string \<Rightarrow> string" where
  "getItem_or localStorage k d =
     (case localStorage k of None \<Rightarrow> d | Some v \<Rightarrow> if v = [] then d else v)"

text \<open>
  The \<open>onStop\<close> callback handed to the screen manager (lines 63-71): it runs when the
  screen source ends by itself.
\<close>

definition onStop :: "GeminiAgent \<Rightarrow> GeminiAgent" where
  "onStop s =
     emit ''screenshare_stopped'' None
       (case screenInterval s of
          None \<Rightarrow> s
        | Some t \<Rightarrow> (clearInterval t s)\<lparr>screenInterval := None\<rparr>)"

text \<open>The assignments of lines 31-82, once the arguments have passed the checks.\<close>

definition assign_fields ::
  "(string \<rightharpoonup> string) \<Rightarrow> agentArgs \<Rightarrow> string \<Rightarrow> config \<Rightarrow> toolManager \<Rightarrow> GeminiAgent" where
  "assign_fields localStorage a u cfg tm =
     \<lparr>initialized = False,
      connected = False,
      audioContext = None,
      audioRecorder = None,
      audioStreamer = None,
      visualizer = None,
      modelTranscriber = None,
      userTranscriber = None,
      modelsKeepAliveInterval = None,
      userKeepAliveInterval = None,
      transcribeModelsSpeech = default_to True (arg_transcribeModelsSpeech a),
      transcribeUsersSpeech = default_to False (arg_transcribeUsersSpeech a),
      deepgramApiKey = arg_deepgramApiKey a,
      modelSampleRate = default_to 24000 (arg_modelSampleRate a),
      fps = getItem_or localStorage ''fps'' ''5'',
      resizeWidth = getItem_or localStorage ''resizeWidth'' ''640'',
      quality = getItem_or localStorage ''quality'' ''0.4'',
      cameraManager =
        Some \<lparr>cam_width = getItem_or localStorage ''resizeWidth'' ''640'',
              cam_quality = getItem_or localStorage ''quality'' ''0.4'',
              cam_facingMode = getItem_or localStorage ''facingMode'' ''environment''\<rparr>,
      cameraInterval = None,
      screenManager =
        Some \<lparr>scr_width = getItem_or localStorage ''resizeWidth'' ''640'',
              scr_quality = getItem_or localStorage ''quality'' ''0.4''\<rparr>,
      screenInterval = None,
      toolManager = tm,
      config =
        cfg\<lparr>cfg_tools := Some (case getToolDeclarations tm of None \<Rightarrow> [] | Some ds \<Rightarrow> ds)\<rparr>,
      name = default_to ''GeminiAgent'' (arg_name a),
      url = u,
      client = None,
      eventListeners = Map.empty,
      timers = [],
      nextTimer = 0,
      calls = []\<rparr>"

text \<open>
  The constructor: the two checks of lines 28-29 come first; line 77 reads
  \<open>toolManager.getToolDeclarations\<close> and writes \<open>config.tools.functionDeclarations\<close>, each
  a TypeError on \<open>null\<close> or \<open>undefined\<close>.
\<close>

definition new_GeminiAgent :: "(string \<rightharpoonup> string) \<Rightarrow> agentArgs \<Rightarrow> error + GeminiAgent" where
  "new_GeminiAgent localStorage a =
     (case arg_url a of
        None \<Rightarrow> Inl (Error ''WebSocket URL is required'')
      | Some u \<Rightarrow>
         if u = [] then Inl (Error ''WebSocket URL is required'')
         else
           (case arg_config a of
              None \<Rightarrow> Inl (Error ''Config is required'')
            | Some cfg \<Rightarrow>
               (case arg_toolManager a of
                  None \<Rightarrow> Inl (TypeError ''getToolDeclarations'')
                | Some tm \<Rightarrow>
                   (case cfg_tools cfg of
                      None \<Rightarrow> Inl (TypeError ''functionDeclarations'')
                    | Some _ \<Rightarrow> Inr (assign_fields localStorage a u cfg tm)))))"

subsection \<open>Inbound event handlers (agent.js, lines 85-126)\<close>

text \<open>
  Modelled from the spec: js/audio/streamer.js is not among the sources. By section 4.3,
  \<open>initialize()\<close> prepares the output pipeline under the flag \<open>isInitialized\<close>, which
  the caller checks; \<open>streamAudio\<close> enqueues a chunk and \<open>stop()\<close> discards what is
  scheduled, and the caller clears the flag after \<open>stop()\<close>. So \<open>initialize\<close> sets the flag,
  and the other two leave it alone; each is recorded in the call log.
\<close>

definition streamer_initialize :: "AudioStreamer \<Rightarrow> GeminiAgent \<Rightarrow> GeminiAgent" where
  "streamer_initialize st s =
     (record_call Streamer_initialize s)\<lparr>audioStreamer := Some (st\<lparr>isInitialized := True\<rparr>)\<rparr>"

text \<open>\<open>new Uint8Array(data)\<close> on an \<open>ArrayBuffer\<close>: a byte view of the same bytes.\<close>

definition Uint8Array :: "byte list \<Rightarrow> byte list" where
  "Uint8Array data = data"

text \<open>The handler of \<open>audio\<close> (lines 87-101), with its try/catch.\<close>

definition on_audio :: "byte list \<Rightarrow> GeminiAgent \<Rightarrow> error option \<times> GeminiAgent" where
  "on_audio data s =
     (case audioStreamer s of
        None \<Rightarrow> (Some (ErrorConcat ''Audio processing error:'' (TypeError ''isInitialized'')), s)
      | Some st \<Rightarrow>
         (let s1 = (if \<not> isInitialized st then streamer_initialize st s else s);
              s2 = record_call (Streamer_streamAudio (Uint8Array data)) s1
          in case modelTranscriber s2 of
               None \<Rightarrow> (None, s2)
             | Some tr \<Rightarrow>
                 if isConnected tr then (None, record_call (ModelTranscriber_sendAudio data) s2)
                 else (None, s2)))"

text \<open>The handler of \<open>interrupted\<close> (lines 104-108).\<close>

definition on_interrupted :: "GeminiAgent \<Rightarrow> error option \<times> GeminiAgent" where
  "on_interrupted s =
     (case audioStreamer s of
        None \<Rightarrow> (Some (TypeError ''stop''), s)
      | Some st \<Rightarrow>
         (None,
          emit ''interrupted'' None
            ((record_call Streamer_stop s)
               \<lparr>audioStreamer := Some (st\<lparr>isInitialized := False\<rparr>)\<rparr>)))"

text \<open>The handler of \<open>turn_complete\<close> (lines 111-114).\<close>

definition on_turn_complete :: "GeminiAgent \<Rightarrow> error option \<times> GeminiAgent" where
  "on_turn_complete s = (None, emit ''turn_complete'' None s)"

text \<open>
  \<open>handleToolCall\<close> (lines 122-126): \<open>functionCalls[0]\<close> is \<open>undefined\<close> for an empty batch;
  a rejection of the tool manager ends the method before anything is sent.
\<close>

definition handleToolCall :: "toolCall \<Rightarrow> GeminiAgent \<Rightarrow> error option \<times> GeminiAgent" where
  "handleToolCall tc s =
     (let functionCall = (case functionCalls tc of [] \<Rightarrow> None | fc # _ \<Rightarrow> Some fc);
          s1 = record_call (ToolManager_handleToolCall functionCall) s
      in case tm_handleToolCall (toolManager s) functionCall of
           Inl e \<Rightarrow> (Some e, s1)
         | Inr response \<Rightarrow>
            (case client s1 of
               None \<Rightarrow> (Some (TypeError ''sendToolResponse''), s1)
             | Some _ \<Rightarrow> (None, record_call (Client_sendToolResponse response) s1)))"

text \<open>
  \<open>setupEventListeners\<close> (lines 85-119) registers the four handlers on the client.
\<close>

definition setupEventListeners :: "GeminiAgent \<Rightarrow> error option \<times> GeminiAgent" where
  "setupEventListeners s =
     (case client s of
        None \<Rightarrow> (Some (TypeError ''on''), s)
      | Some c \<Rightarrow>
         (None,
          s\<lparr>client :=
               Some (c\<lparr>ws_handlers :=
                       ws_handlers c @ [''audio'', ''interrupted'', ''turn_complete'', ''tool_call'']\<rparr>),
            calls := calls s @ [Client_on ''audio'', Client_on ''interrupted'',
                                Client_on ''turn_complete'', Client_on ''tool_call'']\<rparr>))"

text \<open>
  What the client delivers, and the dispatch to the handler registered for it. An error
  thrown by a handler ends that handler only; the next event is still delivered.
\<close>

datatype inbound =
    Audio "byte list"
  | Interrupted
  | Turn_complete
  | Tool_call toolCall

fun dispatch :: "inbound \<Rightarrow> GeminiAgent \<Rightarrow> error option \<times> GeminiAgent" where
  "dispatch (Audio data) s = on_audio data s"
| "dispatch Interrupted s = on_interrupted s"
| "dispatch Turn_complete s = on_turn_complete s"
| "dispatch (Tool_call tc) s = handleToolCall tc s"

fun deliver :: "inbound list \<Rightarrow> GeminiAgent \<Rightarrow> GeminiAgent" where
  "deliver [] s = s"
| "deliver (ev # evs) s = deliver evs (snd (dispatch ev s))"

subsection \<open>Connecting and sending (agent.js, lines 131-145)\<close>

text \<open>
  Modelled from the spec: js/ws/client.js is not among the sources. By section 4.2,
  \<open>connect()\<close> of the client opens the transport; it resolves (\<open>None\<close>) with the transport
  open, or rejects (\<open>Some e\<close>) with the transport closed. The outcome is an argument.
\<close>

definition connect :: "error option \<Rightarrow> GeminiAgent \<Rightarrow> error option \<times> GeminiAgent" where
  "connect outcome s =
     (let s1 = (record_call Client_connect s)
                 \<lparr>client := Some \<lparr>ws_name = name s, ws_open = False, ws_handlers = []\<rparr>\<rparr>
      in case outcome of
           Some e \<Rightarrow> (Some e, s1)
         | None \<Rightarrow>
            (let s2 = s1\<lparr>client := Some \<lparr>ws_name = name s, ws_open = True, ws_handlers = []\<rparr>\<rparr>
             in case setupEventListeners s2 of
                  (Some e, s3) \<Rightarrow> (Some e, s3)
                | (None, s3) \<Rightarrow> (None, s3\<lparr>connected := True\<rparr>)))"

definition sendText :: "string \<Rightarrow> GeminiAgent \<Rightarrow> error option \<times> GeminiAgent" where
  "sendText text s =
     (case client s of
        None \<Rightarrow> (Some (TypeError ''sendText''), s)
      | Some _ \<Rightarrow> (None, emit ''text_sent'' (Some text) (record_call (Client_sendText text) s)))"

subsection \<open>Stopping the capturers (agent.js, lines 174-185 and 214-225)\<close>

definition stopCameraCapture :: "GeminiAgent \<Rightarrow> GeminiAgent" where
  "stopCameraCapture s =
     (let s1 = (case cameraInterval s of
                  None \<Rightarrow> s
                | Some t \<Rightarrow> (clearInterval t s)\<lparr>cameraInterval := None\<rparr>)
      in case cameraManager s1 of
           None \<Rightarrow> s1
         | Some _ \<Rightarrow> record_call Camera_dispose s1)"

definition stopScreenShare :: "GeminiAgent \<Rightarrow> GeminiAgent" where
  "stopScreenShare s =
     (let s1 = (case screenInterval s of
                  None \<Rightarrow> s
                | Some t \<Rightarrow> (clearInterval t s)\<lparr>screenInterval := None\<rparr>)
      in case screenManager s1 of
           None \<Rightarrow> s1
         | Some _ \<Rightarrow> record_call Screen_dispose s1)"

subsection \<open>Disconnecting (agent.js, lines 231-293)\<close>

text \<open>The guarded cleanup blocks of \<open>disconnect\<close>, one definition per block, in source order.\<close>

definition cleanup_audioRecorder :: "GeminiAgent \<Rightarrow> GeminiAgent" where
  "cleanup_audioRecorder s =
     (case audioRecorder s of
        None \<Rightarrow> s
      | Some _ \<Rightarrow> (record_call Recorder_stop s)\<lparr>audioRecorder := None\<rparr>)"

definition cleanup_visualizer :: "GeminiAgent \<Rightarrow> GeminiAgent" where
  "cleanup_visualizer s =
     (case visualizer s of
        None \<Rightarrow> s
      | Some _ \<Rightarrow> (record_call Visualizer_cleanup s)\<lparr>visualizer := None\<rparr>)"

definition cleanup_audioStreamer :: "GeminiAgent \<Rightarrow> GeminiAgent" where
  "cleanup_audioStreamer s =
     (case audioStreamer s of
        None \<Rightarrow> s
      | Some _ \<Rightarrow> (record_call Streamer_stop s)\<lparr>audioStreamer := None\<rparr>)"

definition cleanup_modelTranscriber :: "GeminiAgent \<Rightarrow> GeminiAgent" where
  "cleanup_modelTranscriber s =
     (case modelTranscriber s of
        None \<Rightarrow> s
      | Some _ \<Rightarrow>
         (let s1 = (record_call ModelTranscriber_disconnect s)\<lparr>modelTranscriber := None\<rparr>
          in case modelsKeepAliveInterval s1 of
               None \<Rightarrow> s1
             | Some t \<Rightarrow> (clearInterval t s1)\<lparr>modelsKeepAliveInterval := None\<rparr>))"

definition cleanup_userTranscriber :: "GeminiAgent \<Rightarrow> GeminiAgent" where
  "cleanup_userTranscriber s =
     (case userTranscriber s of
        None \<Rightarrow> s
      | Some _ \<Rightarrow>
         (let s1 = (record_call UserTranscriber_disconnect s)\<lparr>userTranscriber := None\<rparr>
          in case userKeepAliveInterval s1 of
               None \<Rightarrow> s1
             | Some t \<Rightarrow> (clearInterval t s1)\<lparr>userKeepAliveInterval := None\<rparr>))"

definition cleanup_audioContext :: "GeminiAgent \<Rightarrow> GeminiAgent" where
  "cleanup_audioContext s =
     (case audioContext s of
        None \<Rightarrow> s
      | Some _ \<Rightarrow> (record_call AudioContext_close s)\<lparr>audioContext := None\<rparr>)"

text \<open>Everything \<open>disconnect\<close> does before it touches the websocket client.\<close>

definition cleanup_resources :: "GeminiAgent \<Rightarrow> GeminiAgent" where
  "cleanup_resources s =
     cleanup_audioContext
       (cleanup_userTranscriber
          (cleanup_modelTranscriber
             (cleanup_audioStreamer
                (cleanup_visualizer
                   (cleanup_audioRecorder
                      (stopScreenShare
                         (stopCameraCapture s)))))))"

text \<open>
  \<open>this.client.disconnect()\<close> (line 284) has no guard: on a \<open>null\<close> client it throws a
  TypeError, which the catch clause rethrows as \<open>'Disconnect error:' + error\<close> before the
  three assignments that follow it.
\<close>

definition disconnect :: "GeminiAgent \<Rightarrow> error option \<times> GeminiAgent" where
  "disconnect s =
     (let s1 = cleanup_resources s
      in case client s1 of
           None \<Rightarrow> (Some (ErrorConcat ''Disconnect error:'' (TypeError ''disconnect'')), s1)
         | Some _ \<Rightarrow>
            (None,
             (record_call Client_disconnect s1)
               \<lparr>client := None, initialized := False, connected := False\<rparr>))"

subsection \<open>Starting the capturers (agent.js, lines 150-169 and 190-209)\<close>

text \<open>
  The argument \<open>acquired\<close> is the outcome of the capturer's own \<open>initialize()\<close> (the module
  is not among the sources): \<open>None\<close> when the device was acquired, \<open>Some e\<close> when the promise
  rejects with \<open>e\<close>. A \<open>null\<close> manager fails inside the try block like a rejection.
  An error thrown by \<open>disconnect\<close> inside the catch clause replaces the descriptive one.
\<close>

definition startCameraCapture :: "error option \<Rightarrow> GeminiAgent \<Rightarrow> error option \<times> GeminiAgent" where
  "startCameraCapture acquired s =
     (if \<not> connected s then (Some (Error ''Must be connected to start camera capture''), s)
      else
        (let (failure, s1) =
               (case cameraManager s of
                  None \<Rightarrow> (Some (TypeError ''initialize''), s)
                | Some _ \<Rightarrow> (acquired, record_call Camera_initialize s))
         in case failure of
              None \<Rightarrow>
                (let (t, s2) = setInterval CameraCapture s1
                 in (None, s2\<lparr>cameraInterval := Some t\<rparr>))
            | Some e \<Rightarrow>
                (case disconnect s1 of
                   (Some e', s2) \<Rightarrow> (Some e', s2)
                 | (None, s2) \<Rightarrow> (Some (ErrorConcat ''Failed to start camera capture: '' e), s2))))"

definition startScreenShare :: "error option \<Rightarrow> GeminiAgent \<Rightarrow> error option \<times> GeminiAgent" where
  "startScreenShare acquired s =
     (if \<not> connected s
      then (Some (Error ''Websocket must be connected to start screen sharing''), s)
      else
        (let (failure, s1) =
               (case screenManager s of
                  None \<Rightarrow> (Some (TypeError ''initialize''), s)
                | Some _ \<Rightarrow> (acquired, record_call Screen_initialize s))
         in case failure of
              None \<Rightarrow>
                (let (t, s2) = setInterval ScreenCapture s1
                 in (None, s2\<lparr>screenInterval := Some t\<rparr>))
            | Some e \<Rightarrow>
                (Some (ErrorConcat ''Failed to start screen sharing: '' e), stopScreenShare s1)))"

subsection \<open>Timer callbacks\<close>

text \<open>
  The callbacks given to \<open>setInterval\<close> (lines 159-162, 199-202, 310-315, 346-351).
  \<open>imageBase64\<close> is what the capturer's \<open>capture()\<close> resolves to; \<open>hasManager\<close> says
  that the manager field is not \<open>null\<close>.
\<close>

definition send_frame ::
  "bool \<Rightarrow> call \<Rightarrow> string \<Rightarrow> GeminiAgent \<Rightarrow> error option \<times> GeminiAgent" where
  "send_frame hasManager capture imageBase64 s =
     (if \<not> hasManager then (Some (TypeError ''capture''), s)
      else
        (let s1 = record_call capture s
         in case client s1 of
              None \<Rightarrow> (Some (TypeError ''sendImage''), s1)
            | Some _ \<Rightarrow> (None, record_call (Client_sendImage imageBase64) s1)))"

definition keep_alive ::
  "DeepgramTranscriber option \<Rightarrow> call \<Rightarrow> GeminiAgent \<Rightarrow> error option \<times> GeminiAgent" where
  "keep_alive transcriber send s =
     (case transcriber of
        None \<Rightarrow> (Some (TypeError ''isConnected''), s)
      | Some tr \<Rightarrow> (None, if isConnected tr then record_call send s else s))"

text \<open>
  One tick of the timer \<open>t\<close>. A timer that was cleared (or never set) is not in the table
  and runs nothing.
\<close>

definition fire :: "timerId \<Rightarrow> string \<Rightarrow> GeminiAgent \<Rightarrow> error option \<times> GeminiAgent" where
  "fire t imageBase64 s =
     (case map_of (timers s) t of
        None \<Rightarrow> (None, s)
      | Some CameraCapture \<Rightarrow>
          send_frame (cameraManager s \<noteq> None) Camera_capture imageBase64 s
      | Some ScreenCapture \<Rightarrow>
          send_frame (screenManager s \<noteq> None) Screen_capture imageBase64 s
      | Some ModelsKeepAlive \<Rightarrow> keep_alive (modelTranscriber s) ModelTranscriber_send_KeepAlive s
      | Some UserKeepAlive \<Rightarrow> keep_alive (userTranscriber s) UserTranscriber_send_KeepAlive s)"

subsection \<open>Initializing (agent.js, lines 298-403)\<close>

text \<open>
  Modelled from the spec: js/transcribe/deepgram.js is not among the sources. The
  transcription client is an optional side channel (section 6); its \<open>connect()\<close> either
  rejects (\<open>Some e\<close>) or resolves after its \<open>connected\<close> event (\<open>None\<close>), from when on
  \<open>isConnected\<close> holds. The outcome is an argument.
\<close>

definition initializeModelSpeechTranscriber ::
  "error option \<Rightarrow> GeminiAgent \<Rightarrow> error option \<times> GeminiAgent" where
  "initializeModelSpeechTranscriber outcome s =
     (case modelTranscriber s of
        None \<Rightarrow> (None, s)
      | Some tr \<Rightarrow>
         (let tr1 = tr\<lparr>dg_handlers := dg_handlers tr @ [''connected'', ''transcription'']\<rparr>;
              s1 = (record_call ModelTranscriber_connect s)\<lparr>modelTranscriber := Some tr1\<rparr>
          in case outcome of
               Some e \<Rightarrow> (Some e, s1)
             | None \<Rightarrow>
                (let (t, s2) = setInterval ModelsKeepAlive
                                 (s1\<lparr>modelTranscriber := Some (tr1\<lparr>isConnected := True\<rparr>)\<rparr>)
                 in (None, s2\<lparr>modelsKeepAliveInterval := Some t\<rparr>))))"

definition initializeUserSpeechTranscriber ::
  "error option \<Rightarrow> GeminiAgent \<Rightarrow> error option \<times> GeminiAgent" where
  "initializeUserSpeechTranscriber outcome s =
     (case userTranscriber s of
        None \<Rightarrow> (None, s)
      | Some tr \<Rightarrow>
         (let tr1 = tr\<lparr>dg_handlers := dg_handlers tr @ [''connected'', ''transcription'']\<rparr>;
              s1 = (record_call UserTranscriber_connect s)\<lparr>userTranscriber := Some tr1\<rparr>
          in case outcome of
               Some e \<Rightarrow> (Some e, s1)
             | None \<Rightarrow>
                (let (t, s2) = setInterval UserKeepAlive
                                 (s1\<lparr>userTranscriber := Some (tr1\<lparr>isConnected := True\<rparr>)\<rparr>)
                 in (None, s2\<lparr>userKeepAliveInterval := Some t\<rparr>))))"

text \<open>Lines 374-380: audio context, streamer, visualizer and recorder.\<close>

definition initialize_audio :: "GeminiAgent \<Rightarrow> GeminiAgent" where
  "initialize_audio s =
     (let s1 = (record_call AudioContext_new s)\<lparr>audioContext := Some ()\<rparr>;
          s2 = streamer_initialize \<lparr>isInitialized = False\<rparr> s1;
          s3 = (record_call Visualizer_start (record_call GainNode_connect s2))
                 \<lparr>visualizer := Some ()\<rparr>
      in s3\<lparr>audioRecorder := Some ()\<rparr>)"

text \<open>
  Lines 383-394: the transcribers, when an API key is given. A flag is truthy when it is
  \<open>true\<close>; \<open>false\<close> and \<open>null\<close> are falsy.
\<close>

definition initialize_transcribers ::
  "error option \<Rightarrow> error option \<Rightarrow> GeminiAgent \<Rightarrow> error option \<times> GeminiAgent" where
  "initialize_transcribers modelOutcome userOutcome s =
     (if truthy (deepgramApiKey s) then
        (let (e1, s1) =
               (if transcribeModelsSpeech s = Some True
                then initializeModelSpeechTranscriber modelOutcome
                       (s\<lparr>modelTranscriber :=
                            Some \<lparr>dg_sampleRate = modelSampleRate s, isConnected = False,
                                  dg_handlers = []\<rparr>\<rparr>)
                else (None, s))
         in case e1 of
              Some e \<Rightarrow> (Some e, s1)
            | None \<Rightarrow>
               (if transcribeUsersSpeech s1 = Some True
                then initializeUserSpeechTranscriber userOutcome
                       (s1\<lparr>userTranscriber :=
                             Some \<lparr>dg_sampleRate = Some 16000, isConnected = False,
                                   dg_handlers = []\<rparr>\<rparr>)
                else (None, s1)))
      else (None, s))"

text \<open>
  \<open>initialize\<close>: the flag is set (line 396) before \<open>this.client.name\<close> is read (line 397),
  so with a \<open>null\<close> client the method throws with the flag already set. The catch clause
  rethrows \<open>'Error during the initialization of the client: ' + error.message\<close>.
\<close>

definition initialize ::
  "error option \<Rightarrow> error option \<Rightarrow> GeminiAgent \<Rightarrow> error option \<times> GeminiAgent" where
  "initialize modelOutcome userOutcome s =
     (case initialize_transcribers modelOutcome userOutcome (initialize_audio s) of
        (Some e, s1) \<Rightarrow>
          (Some (ErrorConcatMessage ''Error during the initialization of the client: '' e), s1)
      | (None, s1) \<Rightarrow>
          (let s2 = s1\<lparr>initialized := True\<rparr>
           in case client s2 of
                None \<Rightarrow>
                  (Some (ErrorConcatMessage ''Error during the initialization of the client: ''
                           (TypeError ''name'')), s2)
              | Some _ \<Rightarrow> (None, record_call (Client_sendText ''.'') s2)))"

section \<open>Observations on the call log and the timer table\<close>

text \<open>The calls a step appended: the log of the later state without the earlier log.\<close>

definition new_calls :: "GeminiAgent \<Rightarrow> GeminiAgent \<Rightarrow> call list" where
  "new_calls s s' = drop (length (calls s)) (calls s')"

definition is_streamAudio :: "call \<Rightarrow> bool" where
  "is_streamAudio c = (case c of Streamer_streamAudio _ \<Rightarrow> True | _ \<Rightarrow> False)"


definition is_sendToolResponse :: "call \<Rightarrow> bool" where
  "is_sendToolResponse c = (case c of Client_sendToolResponse _ \<Rightarrow> True | _ \<Rightarrow> False)"

definition is_handleToolCall :: "call \<Rightarrow> bool" where
  "is_handleToolCall c = (case c of ToolManager_handleToolCall _ \<Rightarrow> True | _ \<Rightarrow> False)"

text \<open>
  A monitor over the streamer's part of a call log. The flag says that the pipeline is
  stale: \<open>stop()\<close> was called and \<open>initialize()\<close> has not been called since. The log is
  accepted when no chunk is streamed while the pipeline is stale.
\<close>

fun stale_after :: "bool \<Rightarrow> call list \<Rightarrow> bool" where
  "stale_after stale [] = stale"
| "stale_after stale (c # cs) =
     stale_after (if c = Streamer_stop then True
                  else if c = Streamer_initialize then False
                  else stale) cs"

fun no_stale_stream :: "bool \<Rightarrow> call list \<Rightarrow> bool" where
  "no_stale_stream stale [] = True"
| "no_stale_stream stale (c # cs) =
     ((if is_streamAudio c then \<not> stale else True) \<and>
      no_stale_stream (stale_after stale [c]) cs)"

text \<open>
  The agent holds its capture timers: every live timer of the kind is the one stored in
  the interval field. This holds after construction and as long as a capturer is not
  started a second time while its timer runs.
\<close>

definition owns_camera_timers :: "GeminiAgent \<Rightarrow> bool" where
  "owns_camera_timers s = (set (live CameraCapture s) \<subseteq> set_option (cameraInterval s))"

definition owns_screen_timers :: "GeminiAgent \<Rightarrow> bool" where
  "owns_screen_timers s = (set (live ScreenCapture s) \<subseteq> set_option (screenInterval s))"

section \<open>A concrete session\<close>

text \<open>
  A tool manager with one declared tool that answers every call under the call's own id,
  the arguments script.js passes, and the agent they construct.
\<close>

definition demo_toolManager :: toolManager where
  "demo_toolManager =
     \<lparr>getToolDeclarations = Some [''googleSearch''],
      tm_handleToolCall =
        (\<lambda>fc. case fc of
                None \<Rightarrow> Inl (TypeError ''name'')
              | Some c \<Rightarrow> Inr \<lparr>tr_id = fc_id c, tr_response = ''result''\<rparr>)\<rparr>"

definition demo_config :: config where
  "demo_config = \<lparr>cfg_model = ''models/gemini-2.0-flash-exp'', cfg_tools = Some []\<rparr>"

definition demo_args :: agentArgs where
  "demo_args =
     \<lparr>arg_name = Omitted,
      arg_url = Some ''wss://host/ws'',
      arg_config = Some demo_config,
      arg_deepgramApiKey = None,
      arg_transcribeModelsSpeech = Omitted,
      arg_transcribeUsersSpeech = Omitted,
      arg_modelSampleRate = Given 24000,
      arg_toolManager = Some demo_toolManager\<rparr>"

definition demo_agent :: GeminiAgent where
  "demo_agent = assign_fields Map.empty demo_args ''wss://host/ws'' demo_config demo_toolManager"

text \<open>The demo agent after \<open>connect()\<close>, and after \<open>connect()\<close> and \<open>initialize()\<close>.\<close>

definition demo_connected :: GeminiAgent where
  "demo_connected = snd (connect None demo_agent)"

definition demo_running :: GeminiAgent where
  "demo_running = snd (initialize None None demo_connected)"

text \<open>
  The running agent with a listener for \<open>screenshare_stopped\<close> (as js/dom/events.js
  registers one) and with screen sharing started.
\<close>

definition demo_sharing :: GeminiAgent where
  "demo_sharing = snd (startScreenShare None (on ''screenshare_stopped'' 0 demo_running))"

text \<open>
  Screen sharing started a second time while the first timer runs: the screen manager is
  initialized already, so its \<open>initialize()\<close> resolves at once, and line 199 stores the new
  handle over the old one.
\<close>

definition demo_shared_twice :: GeminiAgent where
  "demo_shared_twice = snd (startScreenShare None demo_sharing)"


section \<open>Facts about the concrete session\<close>

lemma demo_constructed: "new_GeminiAgent Map.empty demo_args = Inr demo_agent"
  by (simp add: new_GeminiAgent_def demo_args_def demo_agent_def demo_config_def)

lemma demo_agent_simps:
  "connected demo_agent = False" "initialized demo_agent = False" "client demo_agent = None"
  "calls demo_agent = []" "timers demo_agent = []"
  "cameraInterval demo_agent = None" "screenInterval demo_agent = None"
  "audioStreamer demo_agent = None"
  by (simp_all add: demo_agent_def assign_fields_def default_to_def)

lemma demo_connected_eq:
  "demo_connected =
     demo_agent\<lparr>connected := True,
       client := Some \<lparr>ws_name = Some ''GeminiAgent'', ws_open = True,
                      ws_handlers = [''audio'', ''interrupted'', ''turn_complete'', ''tool_call'']\<rparr>,
       calls := [Client_connect, Client_on ''audio'', Client_on ''interrupted'',
                 Client_on ''turn_complete'', Client_on ''tool_call'']\<rparr>"
  by (simp add: demo_connected_def connect_def setupEventListeners_def record_call_def
      demo_agent_def assign_fields_def default_to_def demo_args_def)

lemma demo_running_eq:
  "demo_running =
     demo_connected\<lparr>initialized := True, audioContext := Some (), audioRecorder := Some (),
       audioStreamer := Some \<lparr>isInitialized = True\<rparr>, visualizer := Some (),
       calls := calls demo_connected @ [AudioContext_new, Streamer_initialize, GainNode_connect,
                 Visualizer_start, Client_sendText ''.'']\<rparr>"
  by (simp add: demo_running_def initialize_def initialize_audio_def initialize_transcribers_def
      truthy_def streamer_initialize_def record_call_def demo_connected_eq
      demo_agent_def assign_fields_def default_to_def demo_args_def)

section \<open>Construction and connection\<close>

text \<open>
  C10. Constructing the agent with the \<open>toolManager\<close> argument omitted (its default,
  \<open>null\<close>) always throws: an earlier check fails, or line 77 dereferences the missing tool
  manager. With a URL and a configuration present the thrown value is that TypeError.
\<close>

theorem constructor_requires_toolManager:
  "arg_toolManager a = None \<Longrightarrow>
     (\<exists>e. new_GeminiAgent localStorage a = Inl e) \<and>
     (truthy (arg_url a) \<and> arg_config a \<noteq> None \<longrightarrow>
        new_GeminiAgent localStorage a = Inl (TypeError ''getToolDeclarations''))"
  by (auto simp: new_GeminiAgent_def truthy_def split: option.splits)

theorem constructor_requires_toolManager_witness:
  "arg_toolManager (demo_args\<lparr>arg_toolManager := None\<rparr>) = None \<and>
   new_GeminiAgent Map.empty (demo_args\<lparr>arg_toolManager := None\<rparr>)
     = Inl (TypeError ''getToolDeclarations'')"
  using constructor_requires_toolManager [of "demo_args\<lparr>arg_toolManager := None\<rparr>" Map.empty]
  by (simp add: demo_args_def truthy_def)





section \<open>Capture\<close>

text \<open>
  C4. While \<open>connected\<close> is false, \<open>startCameraCapture()\<close> and \<open>startScreenShare()\<close> reject
  with their must-be-connected error and leave the agent exactly as it was: no call on a
  capturer, no timer created, the interval fields unchanged (so still \<open>null\<close> if they
  were).
\<close>

theorem not_connected_rejects_capture:
  "\<not> connected s \<Longrightarrow>
     startCameraCapture acquired s
       = (Some (Error ''Must be connected to start camera capture''), s) \<and>
     startScreenShare acquired s
       = (Some (Error ''Websocket must be connected to start screen sharing''), s) \<and>
     new_calls s (snd (startCameraCapture acquired s)) = [] \<and>
     new_calls s (snd (startScreenShare acquired s)) = [] \<and>
     timers (snd (startCameraCapture acquired s)) = timers s \<and>
     timers (snd (startScreenShare acquired s)) = timers s \<and>
     cameraInterval (snd (startCameraCapture acquired s)) = cameraInterval s \<and>
     screenInterval (snd (startScreenShare acquired s)) = screenInterval s"
  by (simp add: startCameraCapture_def startScreenShare_def new_calls_def)

theorem not_connected_rejects_capture_witness:
  "\<not> connected demo_agent \<and>
   startCameraCapture None demo_agent
     = (Some (Error ''Must be connected to start camera capture''), demo_agent) \<and>
   startScreenShare None demo_agent
     = (Some (Error ''Websocket must be connected to start screen sharing''), demo_agent) \<and>
   cameraInterval (snd (startCameraCapture None demo_agent)) = None \<and>
   screenInterval (snd (startScreenShare None demo_agent)) = None \<and>
   timers (snd (startCameraCapture None demo_agent)) = []"
  using not_connected_rejects_capture [of demo_agent None]
  by (simp add: demo_agent_simps)

section \<open>Teardown\<close>

lemmas cleanup_defs =
  stopCameraCapture_def stopScreenShare_def cleanup_audioRecorder_def cleanup_visualizer_def
  cleanup_audioStreamer_def cleanup_modelTranscriber_def cleanup_userTranscriber_def
  cleanup_audioContext_def record_call_def clearInterval_def

lemma cleanup_keeps_client:
  "client (stopCameraCapture s) = client s"
  "client (stopScreenShare s) = client s"
  "client (cleanup_audioRecorder s) = client s"
  "client (cleanup_visualizer s) = client s"
  "client (cleanup_audioStreamer s) = client s"
  "client (cleanup_modelTranscriber s) = client s"
  "client (cleanup_userTranscriber s) = client s"
  "client (cleanup_audioContext s) = client s"
  by (simp_all add: cleanup_defs Let_def split: option.splits)

lemma client_cleanup_resources: "client (cleanup_resources s) = client s"
  by (simp add: cleanup_resources_def cleanup_keeps_client)

lemma cleanup_keeps_flags:
  "initialized (stopCameraCapture s) = initialized s"
  "initialized (stopScreenShare s) = initialized s"
  "initialized (cleanup_audioRecorder s) = initialized s"
  "initialized (cleanup_visualizer s) = initialized s"
  "initialized (cleanup_audioStreamer s) = initialized s"
  "initialized (cleanup_modelTranscriber s) = initialized s"
  "initialized (cleanup_userTranscriber s) = initialized s"
  "initialized (cleanup_audioContext s) = initialized s"
  "connected (stopCameraCapture s) = connected s"
  "connected (stopScreenShare s) = connected s"
  "connected (cleanup_audioRecorder s) = connected s"
  "connected (cleanup_visualizer s) = connected s"
  "connected (cleanup_audioStreamer s) = connected s"
  "connected (cleanup_modelTranscriber s) = connected s"
  "connected (cleanup_userTranscriber s) = connected s"
  "connected (cleanup_audioContext s) = connected s"
  by (simp_all add: cleanup_defs Let_def split: option.splits)

lemma flags_cleanup_resources:
  "initialized (cleanup_resources s) = initialized s"
  "connected (cleanup_resources s) = connected s"
  by (simp_all add: cleanup_resources_def cleanup_keeps_flags)

lemma cleanup_keeps_cameraInterval:
  "cameraInterval (stopCameraCapture s) = None"
  "cameraInterval (stopScreenShare s) = cameraInterval s"
  "cameraInterval (cleanup_audioRecorder s) = cameraInterval s"
  "cameraInterval (cleanup_visualizer s) = cameraInterval s"
  "cameraInterval (cleanup_audioStreamer s) = cameraInterval s"
  "cameraInterval (cleanup_modelTranscriber s) = cameraInterval s"
  "cameraInterval (cleanup_userTranscriber s) = cameraInterval s"
  "cameraInterval (cleanup_audioContext s) = cameraInterval s"
  by (simp_all add: cleanup_defs Let_def split: option.splits)

lemma cleanup_keeps_screenInterval:
  "screenInterval (stopScreenShare s) = None"
  "screenInterval (cleanup_audioRecorder s) = screenInterval s"
  "screenInterval (cleanup_visualizer s) = screenInterval s"
  "screenInterval (cleanup_audioStreamer s) = screenInterval s"
  "screenInterval (cleanup_modelTranscriber s) = screenInterval s"
  "screenInterval (cleanup_userTranscriber s) = screenInterval s"
  "screenInterval (cleanup_audioContext s) = screenInterval s"
  by (simp_all add: cleanup_defs Let_def split: option.splits)

lemma intervals_cleanup_resources:
  "cameraInterval (cleanup_resources s) = None"
  "screenInterval (cleanup_resources s) = None"
  by (simp_all add: cleanup_resources_def cleanup_keeps_cameraInterval cleanup_keeps_screenInterval)

text \<open>No cleanup block creates a timer.\<close>

lemma cleanup_shrinks_timers:
  "set (timers (stopCameraCapture s)) \<subseteq> set (timers s)"
  "set (timers (stopScreenShare s)) \<subseteq> set (timers s)"
  "set (timers (cleanup_audioRecorder s)) \<subseteq> set (timers s)"
  "set (timers (cleanup_visualizer s)) \<subseteq> set (timers s)"
  "set (timers (cleanup_audioStreamer s)) \<subseteq> set (timers s)"
  "set (timers (cleanup_modelTranscriber s)) \<subseteq> set (timers s)"
  "set (timers (cleanup_userTranscriber s)) \<subseteq> set (timers s)"
  "set (timers (cleanup_audioContext s)) \<subseteq> set (timers s)"
  by (auto simp: cleanup_defs Let_def split: option.splits)

lemma timers_after_screen_stop:
  "set (timers (cleanup_audioContext (cleanup_userTranscriber (cleanup_modelTranscriber
     (cleanup_audioStreamer (cleanup_visualizer (cleanup_audioRecorder s))))))) \<subseteq> set (timers s)"
  by (meson cleanup_shrinks_timers order_trans)

lemma timers_stopCameraCapture:
  "timers (stopCameraCapture s) =
     (case cameraInterval s of None \<Rightarrow> timers s
      | Some t \<Rightarrow> filter (\<lambda>p. fst p \<noteq> t) (timers s))"
  by (simp add: cleanup_defs Let_def split: option.splits)

lemma timers_stopScreenShare:
  "timers (stopScreenShare s) =
     (case screenInterval s of None \<Rightarrow> timers s
      | Some t \<Rightarrow> filter (\<lambda>p. fst p \<noteq> t) (timers s))"
  by (simp add: cleanup_defs Let_def split: option.splits)

lemma screenInterval_stopCameraCapture:
  "screenInterval (stopCameraCapture s) = screenInterval s"
  by (simp add: cleanup_defs Let_def split: option.splits)

lemma timers_cleanup_resources:
  "set (timers (cleanup_resources s)) \<subseteq>
     {p \<in> set (timers s). Some (fst p) \<noteq> cameraInterval s \<and> Some (fst p) \<noteq> screenInterval s}"
proof -
  have "set (timers (cleanup_resources s)) \<subseteq> set (timers (stopScreenShare (stopCameraCapture s)))"
    unfolding cleanup_resources_def by (rule timers_after_screen_stop)
  also have "\<dots> \<subseteq> {p \<in> set (timers s). Some (fst p) \<noteq> cameraInterval s \<and> Some (fst p) \<noteq> screenInterval s}"
    by (auto simp: timers_stopScreenShare timers_stopCameraCapture screenInterval_stopCameraCapture
        split: option.splits)
  finally show ?thesis .
qed

lemma disconnect_without_client:
  "client s = None \<Longrightarrow>
     disconnect s
       = (Some (ErrorConcat ''Disconnect error:'' (TypeError ''disconnect'')), cleanup_resources s)"
  by (simp add: disconnect_def client_cleanup_resources)

lemma disconnect_with_client:
  "client s = Some c \<Longrightarrow>
     disconnect s
       = (None, (record_call Client_disconnect (cleanup_resources s))
                  \<lparr>client := None, initialized := False, connected := False\<rparr>)"
  by (simp add: disconnect_def client_cleanup_resources)

lemma client_after_disconnect: "client (snd (disconnect s)) = None"
  by (cases "client s") (simp_all add: disconnect_without_client disconnect_with_client
      client_cleanup_resources)

text \<open>
  C2 (the code departs from the claim). Whatever the state, the second of two
  consecutive \<open>disconnect()\<close> calls throws: the first call leaves \<open>client\<close> \<open>null\<close> (it
  assigned \<open>null\<close>, or the client was \<open>null\<close> already and it threw), and line 284
  dereferences the client without the guard that every other resource has. Likewise a
  \<open>disconnect()\<close> on an agent that never acquired a client throws, after the guarded
  cleanup blocks have run and before the lifecycle flags are reset.
\<close>

theorem disconnect_twice_throws:
  "fst (disconnect (snd (disconnect s)))
     = Some (ErrorConcat ''Disconnect error:'' (TypeError ''disconnect'')) \<and>
   (client s = None \<longrightarrow>
      fst (disconnect s) = Some (ErrorConcat ''Disconnect error:'' (TypeError ''disconnect'')) \<and>
      initialized (snd (disconnect s)) = initialized s)"
  by (simp add: disconnect_without_client client_after_disconnect flags_cleanup_resources)

lemma demo_running_simps:
  "client demo_running = Some \<lparr>ws_name = Some ''GeminiAgent'', ws_open = True,
      ws_handlers = [''audio'', ''interrupted'', ''turn_complete'', ''tool_call'']\<rparr>"
  "connected demo_running" "initialized demo_running"
  "audioStreamer demo_running = Some \<lparr>isInitialized = True\<rparr>"
  "cameraInterval demo_running = None" "screenInterval demo_running = None"
  "timers demo_running = []" "modelTranscriber demo_running = None"
  "eventListeners demo_running = Map.empty"
  "cameraManager demo_running \<noteq> None" "screenManager demo_running \<noteq> None"
  by (simp_all add: demo_running_eq demo_connected_eq demo_agent_def assign_fields_def default_to_def)

theorem disconnect_twice_throws_witness:
  "fst (disconnect demo_running) = None \<and>
   fst (disconnect (snd (disconnect demo_running)))
     = Some (ErrorConcat ''Disconnect error:'' (TypeError ''disconnect'')) \<and>
   client demo_agent = None \<and>
   fst (disconnect demo_agent) = Some (ErrorConcat ''Disconnect error:'' (TypeError ''disconnect''))"
  using disconnect_twice_throws [of demo_running] disconnect_twice_throws [of demo_agent]
  by (simp add: disconnect_with_client demo_running_simps demo_agent_simps)

text \<open>
  Each cleanup block in closed form: the fields it assigns, the timers it clears and the
  calls it makes, in terms of the state before.
\<close>

lemma stopCameraCapture_eq:
  "stopCameraCapture s =
     s\<lparr>cameraInterval := None,
       timers := filter (\<lambda>p. Some (fst p) \<noteq> cameraInterval s) (timers s),
       calls := calls s @
         (case cameraInterval s of None \<Rightarrow> [] | Some t \<Rightarrow> [ClearInterval t]) @
         (case cameraManager s of None \<Rightarrow> [] | Some _ \<Rightarrow> [Camera_dispose])\<rparr>"
  by (rule GeminiAgent.equality)
     (simp_all add: stopCameraCapture_def clearInterval_def record_call_def Let_def
       split: option.splits)

lemma stopScreenShare_eq:
  "stopScreenShare s =
     s\<lparr>screenInterval := None,
       timers := filter (\<lambda>p. Some (fst p) \<noteq> screenInterval s) (timers s),
       calls := calls s @
         (case screenInterval s of None \<Rightarrow> [] | Some t \<Rightarrow> [ClearInterval t]) @
         (case screenManager s of None \<Rightarrow> [] | Some _ \<Rightarrow> [Screen_dispose])\<rparr>"
  by (rule GeminiAgent.equality)
     (simp_all add: stopScreenShare_def clearInterval_def record_call_def Let_def
       split: option.splits)

lemma cleanup_audioRecorder_eq:
  "cleanup_audioRecorder s =
     s\<lparr>audioRecorder := None,
       calls := calls s @ (case audioRecorder s of None \<Rightarrow> [] | Some _ \<Rightarrow> [Recorder_stop])\<rparr>"
  by (rule GeminiAgent.equality)
     (simp_all add: cleanup_audioRecorder_def record_call_def split: option.splits)

lemma cleanup_visualizer_eq:
  "cleanup_visualizer s =
     s\<lparr>visualizer := None,
       calls := calls s @ (case visualizer s of None \<Rightarrow> [] | Some _ \<Rightarrow> [Visualizer_cleanup])\<rparr>"
  by (rule GeminiAgent.equality)
     (simp_all add: cleanup_visualizer_def record_call_def split: option.splits)

lemma cleanup_audioStreamer_eq:
  "cleanup_audioStreamer s =
     s\<lparr>audioStreamer := None,
       calls := calls s @ (case audioStreamer s of None \<Rightarrow> [] | Some _ \<Rightarrow> [Streamer_stop])\<rparr>"
  by (rule GeminiAgent.equality)
     (simp_all add: cleanup_audioStreamer_def record_call_def split: option.splits)

lemma cleanup_modelTranscriber_eq:
  "cleanup_modelTranscriber s =
     s\<lparr>modelTranscriber := None,
       modelsKeepAliveInterval :=
         (case modelTranscriber s of None \<Rightarrow> modelsKeepAliveInterval s | Some _ \<Rightarrow> None),
       timers := filter (\<lambda>p. modelTranscriber s = None \<or>
                               Some (fst p) \<noteq> modelsKeepAliveInterval s) (timers s),
       calls := calls s @
         (case modelTranscriber s of
            None \<Rightarrow> []
          | Some _ \<Rightarrow> ModelTranscriber_disconnect #
              (case modelsKeepAliveInterval s of None \<Rightarrow> [] | Some t \<Rightarrow> [ClearInterval t]))\<rparr>"
  by (rule GeminiAgent.equality)
     (simp_all add: cleanup_modelTranscriber_def clearInterval_def record_call_def Let_def
       split: option.splits)

lemma cleanup_userTranscriber_eq:
  "cleanup_userTranscriber s =
     s\<lparr>userTranscriber := None,
       userKeepAliveInterval :=
         (case userTranscriber s of None \<Rightarrow> userKeepAliveInterval s | Some _ \<Rightarrow> None),
       timers := filter (\<lambda>p. userTranscriber s = None \<or>
                               Some (fst p) \<noteq> userKeepAliveInterval s) (timers s),
       calls := calls s @
         (case userTranscriber s of
            None \<Rightarrow> []
          | Some _ \<Rightarrow> UserTranscriber_disconnect #
              (case userKeepAliveInterval s of None \<Rightarrow> [] | Some t \<Rightarrow> [ClearInterval t]))\<rparr>"
  by (rule GeminiAgent.equality)
     (simp_all add: cleanup_userTranscriber_def clearInterval_def record_call_def Let_def
       split: option.splits)

lemma cleanup_audioContext_eq:
  "cleanup_audioContext s =
     s\<lparr>audioContext := None,
       calls := calls s @ (case audioContext s of None \<Rightarrow> [] | Some _ \<Rightarrow> [AudioContext_close])\<rparr>"
  by (rule GeminiAgent.equality)
     (simp_all add: cleanup_audioContext_def record_call_def split: option.splits)

lemmas cleanup_eqs =
  stopCameraCapture_eq stopScreenShare_eq cleanup_audioRecorder_eq cleanup_visualizer_eq
  cleanup_audioStreamer_eq cleanup_modelTranscriber_eq cleanup_userTranscriber_eq
  cleanup_audioContext_eq

lemma cleanup_resources_eq:
  "cleanup_resources s =
     s\<lparr>cameraInterval := None,
       screenInterval := None,
       audioRecorder := None,
       visualizer := None,
       audioStreamer := None,
       modelTranscriber := None,
       modelsKeepAliveInterval :=
         (case modelTranscriber s of None \<Rightarrow> modelsKeepAliveInterval s | Some _ \<Rightarrow> None),
       userTranscriber := None,
       userKeepAliveInterval :=
         (case userTranscriber s of None \<Rightarrow> userKeepAliveInterval s | Some _ \<Rightarrow> None),
       audioContext := None,
       timers :=
         filter (\<lambda>p. Some (fst p) \<noteq> cameraInterval s \<and> Some (fst p) \<noteq> screenInterval s \<and>
                      (modelTranscriber s = None \<or> Some (fst p) \<noteq> modelsKeepAliveInterval s) \<and>
                      (userTranscriber s = None \<or> Some (fst p) \<noteq> userKeepAliveInterval s))
           (timers s),
       calls := calls s @
         (case cameraInterval s of None \<Rightarrow> [] | Some t \<Rightarrow> [ClearInterval t]) @
         (case cameraManager s of None \<Rightarrow> [] | Some _ \<Rightarrow> [Camera_dispose]) @
         (case screenInterval s of None \<Rightarrow> [] | Some t \<Rightarrow> [ClearInterval t]) @
         (case screenManager s of None \<Rightarrow> [] | Some _ \<Rightarrow> [Screen_dispose]) @
         (case audioRecorder s of None \<Rightarrow> [] | Some _ \<Rightarrow> [Recorder_stop]) @
         (case visualizer s of None \<Rightarrow> [] | Some _ \<Rightarrow> [Visualizer_cleanup]) @
         (case audioStreamer s of None \<Rightarrow> [] | Some _ \<Rightarrow> [Streamer_stop]) @
         (case modelTranscriber s of
            None \<Rightarrow> []
          | Some _ \<Rightarrow> ModelTranscriber_disconnect #
              (case modelsKeepAliveInterval s of None \<Rightarrow> [] | Some t \<Rightarrow> [ClearInterval t])) @
         (case userTranscriber s of
            None \<Rightarrow> []
          | Some _ \<Rightarrow> UserTranscriber_disconnect #
              (case userKeepAliveInterval s of None \<Rightarrow> [] | Some t \<Rightarrow> [ClearInterval t])) @
         (case audioContext s of None \<Rightarrow> [] | Some _ \<Rightarrow> [AudioContext_close])\<rparr>"
  by (rule GeminiAgent.equality)
     (auto simp: cleanup_resources_def cleanup_eqs cong: option.case_cong intro!: filter_cong)

lemma failed_camera_state:
  assumes "client s = Some c" "cameraManager s = Some cm" "screenManager s = Some sm"
  shows "snd (disconnect (record_call Camera_initialize s)) =
     s\<lparr>initialized := False,
       connected := False,
       client := None,
       cameraInterval := None,
       screenInterval := None,
       audioRecorder := None,
       visualizer := None,
       audioStreamer := None,
       modelTranscriber := None,
       modelsKeepAliveInterval :=
         (case modelTranscriber s of None \<Rightarrow> modelsKeepAliveInterval s | Some _ \<Rightarrow> None),
       userTranscriber := None,
       userKeepAliveInterval :=
         (case userTranscriber s of None \<Rightarrow> userKeepAliveInterval s | Some _ \<Rightarrow> None),
       audioContext := None,
       timers :=
         filter (\<lambda>p. Some (fst p) \<noteq> cameraInterval s \<and> Some (fst p) \<noteq> screenInterval s \<and>
                      (modelTranscriber s = None \<or> Some (fst p) \<noteq> modelsKeepAliveInterval s) \<and>
                      (userTranscriber s = None \<or> Some (fst p) \<noteq> userKeepAliveInterval s))
           (timers s),
       calls := calls s @ [Camera_initialize] @
         (case cameraInterval s of None \<Rightarrow> [] | Some t \<Rightarrow> [ClearInterval t]) @
         [Camera_dispose] @
         (case screenInterval s of None \<Rightarrow> [] | Some t \<Rightarrow> [ClearInterval t]) @
         [Screen_dispose] @
         (case audioRecorder s of None \<Rightarrow> [] | Some _ \<Rightarrow> [Recorder_stop]) @
         (case visualizer s of None \<Rightarrow> [] | Some _ \<Rightarrow> [Visualizer_cleanup]) @
         (case audioStreamer s of None \<Rightarrow> [] | Some _ \<Rightarrow> [Streamer_stop]) @
         (case modelTranscriber s of
            None \<Rightarrow> []
          | Some _ \<Rightarrow> ModelTranscriber_disconnect #
              (case modelsKeepAliveInterval s of None \<Rightarrow> [] | Some t \<Rightarrow> [ClearInterval t])) @
         (case userTranscriber s of
            None \<Rightarrow> []
          | Some _ \<Rightarrow> UserTranscriber_disconnect #
              (case userKeepAliveInterval s of None \<Rightarrow> [] | Some t \<Rightarrow> [ClearInterval t])) @
         (case audioContext s of None \<Rightarrow> [] | Some _ \<Rightarrow> [AudioContext_close]) @
         [Client_disconnect]\<rparr>"
proof -
  have c: "client (record_call Camera_initialize s) = Some c"
    using assms(1) by (simp add: record_call_def)
  show ?thesis
    unfolding disconnect_with_client [OF c] snd_conv cleanup_resources_eq
    using assms(2,3)
    by (intro GeminiAgent.equality) (simp_all add: record_call_def cong: option.case_cong)
qed

lemma failed_screen_state:
  assumes "screenManager s = Some sm"
  shows "stopScreenShare (record_call Screen_initialize s) =
     s\<lparr>screenInterval := None,
       timers := filter (\<lambda>p. Some (fst p) \<noteq> screenInterval s) (timers s),
       calls := calls s @ [Screen_initialize] @
         (case screenInterval s of None \<Rightarrow> [] | Some t \<Rightarrow> [ClearInterval t]) @
         [Screen_dispose]\<rparr>"
  unfolding stopScreenShare_eq using assms
  by (intro GeminiAgent.equality) (simp_all add: record_call_def cong: option.case_cong)


lemma live_empty_after_clearing:
  assumes sub: "set (timers s') \<subseteq> {p \<in> set (timers s). Some (fst p) \<noteq> held}"
      and own: "set (live k s) \<subseteq> set_option held"
  shows "live k s' = []"
proof -
  have "\<not> (\<exists>p \<in> set (timers s'). snd p = k)"
  proof
    assume "\<exists>p \<in> set (timers s'). snd p = k"
    then obtain p where p: "p \<in> set (timers s')" "snd p = k" by blast
    with sub have in_s: "p \<in> set (timers s)" and other: "Some (fst p) \<noteq> held" by auto
    from in_s p(2) have "fst p \<in> set (live k s)" by (force simp: live_def)
    with own have "fst p \<in> set_option held" by blast
    then have "held = Some (fst p)" by (cases held) auto
    with other show False by simp
  qed
  then show ?thesis by (auto simp: live_def filter_empty_conv)
qed

lemma startCameraCapture_failed:
  assumes "connected s" "client s = Some c" "cameraManager s = Some cm"
  shows "startCameraCapture (Some e) s
           = (Some (ErrorConcat ''Failed to start camera capture: '' e),
              snd (disconnect (record_call Camera_initialize s)))"
proof -
  have "client (record_call Camera_initialize s) = Some c"
    using assms(2) by (simp add: record_call_def)
  then obtain s2 where "disconnect (record_call Camera_initialize s) = (None, s2)"
    by (simp add: disconnect_with_client)
  then show ?thesis
    using assms(1,3) by (simp add: startCameraCapture_def)
qed

lemma startScreenShare_failed:
  assumes "connected s" "screenManager s = Some sm"
  shows "startScreenShare (Some e) s
           = (Some (ErrorConcat ''Failed to start screen sharing: '' e),
              stopScreenShare (record_call Screen_initialize s))"
  using assms by (simp add: startScreenShare_def)

lemma after_failed_camera:
  assumes "client s = Some c"
  defines "s' \<equiv> snd (disconnect (record_call Camera_initialize s))"
  shows "cameraInterval s' = None" "screenInterval s' = None" "\<not> connected s'"
        "\<not> initialized s'" "client s' = None"
        "set (timers s') \<subseteq>
           {p \<in> set (timers s). Some (fst p) \<noteq> cameraInterval s \<and> Some (fst p) \<noteq> screenInterval s}"
proof -
  let ?s1 = "record_call Camera_initialize s"
  have c1: "client ?s1 = Some c" using assms(1) by (simp add: record_call_def)
  have eq: "s' = (record_call Client_disconnect (cleanup_resources ?s1))
                   \<lparr>client := None, initialized := False, connected := False\<rparr>"
    unfolding s'_def by (simp add: disconnect_with_client [OF c1])
  show "cameraInterval s' = None" "screenInterval s' = None"
    by (simp_all add: eq record_call_def intervals_cleanup_resources)
  show "\<not> connected s'" "\<not> initialized s'" "client s' = None"
    by (simp_all add: eq)
  have "timers s' = timers (cleanup_resources ?s1)"
    by (simp add: eq record_call_def)
  moreover have "timers ?s1 = timers s" "cameraInterval ?s1 = cameraInterval s"
    "screenInterval ?s1 = screenInterval s"
    by (simp_all add: record_call_def)
  ultimately show "set (timers s') \<subseteq>
     {p \<in> set (timers s). Some (fst p) \<noteq> cameraInterval s \<and> Some (fst p) \<noteq> screenInterval s}"
    using timers_cleanup_resources [of ?s1] by simp
qed

lemma after_failed_screen:
  assumes "screenManager s = Some sm"
  defines "s' \<equiv> stopScreenShare (record_call Screen_initialize s)"
  shows "screenInterval s' = None"
        "new_calls s s' = Screen_initialize #
           (case screenInterval s of None \<Rightarrow> [] | Some t \<Rightarrow> [ClearInterval t]) @ [Screen_dispose]"
        "set (timers s') \<subseteq> {p \<in> set (timers s). Some (fst p) \<noteq> screenInterval s}"
  using assms(1) unfolding s'_def
  by (auto simp: stopScreenShare_def record_call_def clearInterval_def new_calls_def Let_def
      split: option.splits)

text \<open>
  C5 (as amended). On a connected agent (its client and its two managers present, as the
  constructor and \<open>connect()\<close> leave them) whose capturer fails to initialize with \<open>e\<close>:
  \<open>startCameraCapture()\<close> runs a full \<open>disconnect()\<close>, which succeeds, and then rejects with
  \<open>'Failed to start camera capture: ' + e\<close>. The state it leaves is given in full: every
  owned resource is released by its own call, in source order (camera timer and camera
  manager, screen timer and screen manager, recorder, visualizer, streamer, the two
  transcribers with their keep-alive timers, audio context, client), every such field is
  \<open>null\<close>, the flags are reset, exactly the timers held in those fields are cleared, and
  no timer is created. \<open>startScreenShare()\<close> runs \<open>stopScreenShare()\<close>, which clears the
  screen timer held in \<open>screenInterval\<close>, if any, and disposes the screen manager, changes
  nothing else, and then rejects with \<open>'Failed to start screen sharing: ' + e\<close>. No
  capture timer of the torn-down path stays live provided the agent held every live
  capture timer of that kind in its interval field.
\<close>

theorem failed_acquisition_tears_down:
  assumes "connected s" "client s = Some c" "cameraManager s = Some cm" "screenManager s = Some sm"
  shows
   "startCameraCapture (Some e) s
      = (Some (ErrorConcat ''Failed to start camera capture: '' e),
         s\<lparr>initialized := False,
           connected := False,
           client := None,
           cameraInterval := None,
           screenInterval := None,
           audioRecorder := None,
           visualizer := None,
           audioStreamer := None,
           modelTranscriber := None,
           modelsKeepAliveInterval :=
             (case modelTranscriber s of None \<Rightarrow> modelsKeepAliveInterval s | Some _ \<Rightarrow> None),
           userTranscriber := None,
           userKeepAliveInterval :=
             (case userTranscriber s of None \<Rightarrow> userKeepAliveInterval s | Some _ \<Rightarrow> None),
           audioContext := None,
           timers :=
             filter (\<lambda>p. Some (fst p) \<noteq> cameraInterval s \<and> Some (fst p) \<noteq> screenInterval s \<and>
                          (modelTranscriber s = None \<or> Some (fst p) \<noteq> modelsKeepAliveInterval s) \<and>
                          (userTranscriber s = None \<or> Some (fst p) \<noteq> userKeepAliveInterval s))
               (timers s),
           calls := calls s @ [Camera_initialize] @
             (case cameraInterval s of None \<Rightarrow> [] | Some t \<Rightarrow> [ClearInterval t]) @
             [Camera_dispose] @
             (case screenInterval s of None \<Rightarrow> [] | Some t \<Rightarrow> [ClearInterval t]) @
             [Screen_dispose] @
             (case audioRecorder s of None \<Rightarrow> [] | Some _ \<Rightarrow> [Recorder_stop]) @
             (case visualizer s of None \<Rightarrow> [] | Some _ \<Rightarrow> [Visualizer_cleanup]) @
             (case audioStreamer s of None \<Rightarrow> [] | Some _ \<Rightarrow> [Streamer_stop]) @
             (case modelTranscriber s of
                None \<Rightarrow> []
              | Some _ \<Rightarrow> ModelTranscriber_disconnect #
                  (case modelsKeepAliveInterval s of None \<Rightarrow> [] | Some t \<Rightarrow> [ClearInterval t])) @
             (case userTranscriber s of
                None \<Rightarrow> []
              | Some _ \<Rightarrow> UserTranscriber_disconnect #
                  (case userKeepAliveInterval s of None \<Rightarrow> [] | Some t \<Rightarrow> [ClearInterval t])) @
             (case audioContext s of None \<Rightarrow> [] | Some _ \<Rightarrow> [AudioContext_close]) @
             [Client_disconnect]\<rparr>) \<and>
    fst (disconnect (record_call Camera_initialize s)) = None \<and>
    cameraInterval (snd (startCameraCapture (Some e) s)) = None \<and>
    screenInterval (snd (startCameraCapture (Some e) s)) = None \<and>
    \<not> connected (snd (startCameraCapture (Some e) s)) \<and>
    \<not> initialized (snd (startCameraCapture (Some e) s)) \<and>
    client (snd (startCameraCapture (Some e) s)) = None \<and>
    set (timers (snd (startCameraCapture (Some e) s))) \<subseteq> set (timers s) \<and>
    (owns_camera_timers s \<longrightarrow> live CameraCapture (snd (startCameraCapture (Some e) s)) = []) \<and>
    (owns_screen_timers s \<longrightarrow> live ScreenCapture (snd (startCameraCapture (Some e) s)) = []) \<and>
    startScreenShare (Some e) s
      = (Some (ErrorConcat ''Failed to start screen sharing: '' e),
         s\<lparr>screenInterval := None,
           timers := filter (\<lambda>p. Some (fst p) \<noteq> screenInterval s) (timers s),
           calls := calls s @ [Screen_initialize] @
             (case screenInterval s of None \<Rightarrow> [] | Some t \<Rightarrow> [ClearInterval t]) @
             [Screen_dispose]\<rparr>) \<and>
    screenInterval (snd (startScreenShare (Some e) s)) = None \<and>
    new_calls s (snd (startScreenShare (Some e) s))
      = Screen_initialize #
          (case screenInterval s of None \<Rightarrow> [] | Some t \<Rightarrow> [ClearInterval t]) @ [Screen_dispose] \<and>
    set (timers (snd (startScreenShare (Some e) s))) \<subseteq> set (timers s) \<and>
    (owns_screen_timers s \<longrightarrow> live ScreenCapture (snd (startScreenShare (Some e) s)) = [])"
proof -
  let ?c = "snd (disconnect (record_call Camera_initialize s))"
  let ?r = "stopScreenShare (record_call Screen_initialize s)"
  have cam: "startCameraCapture (Some e) s
      = (Some (ErrorConcat ''Failed to start camera capture: '' e), ?c)"
    by (rule startCameraCapture_failed [OF assms(1,2,3)])
  have scr: "startScreenShare (Some e) s
      = (Some (ErrorConcat ''Failed to start screen sharing: '' e), ?r)"
    by (rule startScreenShare_failed [OF assms(1,4)])
  have ok: "fst (disconnect (record_call Camera_initialize s)) = None"
    using assms(2) by (simp add: disconnect_with_client record_call_def)
  note c = after_failed_camera [OF assms(2)]
  note r = after_failed_screen [OF assms(4)]
  have ct: "set (timers ?c) \<subseteq> set (timers s)" using c(6) by blast
  have rt: "set (timers ?r) \<subseteq> set (timers s)" using r(3) by blast
  have c_cam: "owns_camera_timers s \<longrightarrow> live CameraCapture ?c = []"
  proof
    assume "owns_camera_timers s"
    then have "set (live CameraCapture s) \<subseteq> set_option (cameraInterval s)"
      by (simp add: owns_camera_timers_def)
    moreover have "set (timers ?c) \<subseteq> {p \<in> set (timers s). Some (fst p) \<noteq> cameraInterval s}"
      using c(6) by blast
    ultimately show "live CameraCapture ?c = []" by (rule live_empty_after_clearing [rotated])
  qed
  have c_scr: "owns_screen_timers s \<longrightarrow> live ScreenCapture ?c = []"
  proof
    assume "owns_screen_timers s"
    then have "set (live ScreenCapture s) \<subseteq> set_option (screenInterval s)"
      by (simp add: owns_screen_timers_def)
    moreover have "set (timers ?c) \<subseteq> {p \<in> set (timers s). Some (fst p) \<noteq> screenInterval s}"
      using c(6) by blast
    ultimately show "live ScreenCapture ?c = []" by (rule live_empty_after_clearing [rotated])
  qed
  have r_scr: "owns_screen_timers s \<longrightarrow> live ScreenCapture ?r = []"
  proof
    assume "owns_screen_timers s"
    then have "set (live ScreenCapture s) \<subseteq> set_option (screenInterval s)"
      by (simp add: owns_screen_timers_def)
    with r(3) show "live ScreenCapture ?r = []" by (rule live_empty_after_clearing)
  qed
  show ?thesis
    unfolding failed_camera_state [OF assms(2,3,4), symmetric]
      failed_screen_state [OF assms(4), symmetric]
    unfolding cam scr snd_conv
    using ok c(1-5) ct c_cam c_scr r(1,2) rt r_scr by simp
qed

lemma demo_sharing_eq:
  "demo_sharing =
     demo_running\<lparr>screenInterval := Some (TimerId 1),
       eventListeners := [''screenshare_stopped'' \<mapsto> [0]],
       timers := [(TimerId 1, ScreenCapture)], nextTimer := 1,
       calls := calls demo_running @ [Screen_initialize, SetInterval (TimerId 1) ScreenCapture]\<rparr>"
  by (simp add: demo_sharing_def startScreenShare_def on_def setInterval_def record_call_def
      Let_def demo_running_eq demo_connected_eq demo_agent_def assign_fields_def default_to_def)

lemma demo_sharing_simps:
  "client demo_sharing = Some \<lparr>ws_name = Some ''GeminiAgent'', ws_open = True,
      ws_handlers = [''audio'', ''interrupted'', ''turn_complete'', ''tool_call'']\<rparr>"
  "connected demo_sharing"
  "cameraInterval demo_sharing = None" "screenInterval demo_sharing = Some (TimerId 1)"
  "timers demo_sharing = [(TimerId 1, ScreenCapture)]"
  "eventListeners demo_sharing = [''screenshare_stopped'' \<mapsto> [0]]"
  "cameraManager demo_sharing = Some \<lparr>cam_width = ''640'', cam_quality = ''0.4'',
      cam_facingMode = ''environment''\<rparr>"
  "screenManager demo_sharing = Some \<lparr>scr_width = ''640'', scr_quality = ''0.4''\<rparr>"
  "audioRecorder demo_sharing = Some ()" "visualizer demo_sharing = Some ()"
  "audioStreamer demo_sharing = Some \<lparr>isInitialized = True\<rparr>"
  "audioContext demo_sharing = Some ()"
  "modelTranscriber demo_sharing = None" "userTranscriber demo_sharing = None"
  by (simp_all add: demo_sharing_eq demo_running_eq demo_connected_eq demo_agent_def
      assign_fields_def default_to_def getItem_or_def)

lemma demo_sharing_owns:
  "owns_camera_timers demo_sharing" "owns_screen_timers demo_sharing"
  by (simp_all add: owns_camera_timers_def owns_screen_timers_def live_def demo_sharing_simps)

theorem failed_acquisition_tears_down_witness:
  "connected demo_sharing \<and> screenInterval demo_sharing = Some (TimerId 1) \<and>
   live ScreenCapture demo_sharing = [TimerId 1] \<and>
   fst (startCameraCapture (Some (Error ''Permission denied'')) demo_sharing)
     = Some (ErrorConcat ''Failed to start camera capture: '' (Error ''Permission denied'')) \<and>
   screenInterval (snd (startCameraCapture (Some (Error ''Permission denied'')) demo_sharing)) = None \<and>
   live ScreenCapture (snd (startCameraCapture (Some (Error ''Permission denied'')) demo_sharing)) = [] \<and>
   new_calls demo_sharing (snd (startCameraCapture (Some (Error ''Permission denied'')) demo_sharing))
     = [Camera_initialize, Camera_dispose, ClearInterval (TimerId 1), Screen_dispose,
        Recorder_stop, Visualizer_cleanup, Streamer_stop, AudioContext_close,
        Client_disconnect] \<and>
   fst (startScreenShare (Some (Error ''Permission denied'')) demo_sharing)
     = Some (ErrorConcat ''Failed to start screen sharing: '' (Error ''Permission denied'')) \<and>
   new_calls demo_sharing (snd (startScreenShare (Some (Error ''Permission denied'')) demo_sharing))
     = [Screen_initialize, ClearInterval (TimerId 1), Screen_dispose] \<and>
   live ScreenCapture (snd (startScreenShare (Some (Error ''Permission denied'')) demo_sharing)) = []"
proof -
  have l: "live ScreenCapture demo_sharing = [TimerId 1]"
    by (simp add: live_def demo_sharing_simps)
  from failed_acquisition_tears_down [OF demo_sharing_simps(2) demo_sharing_simps(1)
      demo_sharing_simps(7) demo_sharing_simps(8), of "Error ''Permission denied''"]
    demo_sharing_owns l
  show ?thesis by (elim conjE) (simp add: demo_sharing_simps new_calls_def)
qed

text \<open>
  C5 as first stated fails where screen sharing was started twice: the first timer's
  handle was overwritten, and after a failed camera start and its full \<open>disconnect()\<close>
  that timer is still live.
\<close>

lemma demo_shared_twice_eq:
  "demo_shared_twice =
     demo_sharing\<lparr>screenInterval := Some (TimerId 2),
       timers := [(TimerId 1, ScreenCapture), (TimerId 2, ScreenCapture)], nextTimer := 2,
       calls := calls demo_sharing @ [Screen_initialize, SetInterval (TimerId 2) ScreenCapture]\<rparr>"
  by (simp add: demo_shared_twice_def startScreenShare_def setInterval_def record_call_def
      Let_def demo_sharing_eq demo_running_eq demo_connected_eq demo_agent_def assign_fields_def
      default_to_def)

lemma demo_shared_twice_simps:
  "client demo_shared_twice = Some \<lparr>ws_name = Some ''GeminiAgent'', ws_open = True,
      ws_handlers = [''audio'', ''interrupted'', ''turn_complete'', ''tool_call'']\<rparr>"
  "connected demo_shared_twice"
  "cameraInterval demo_shared_twice = None" "screenInterval demo_shared_twice = Some (TimerId 2)"
  "timers demo_shared_twice = [(TimerId 1, ScreenCapture), (TimerId 2, ScreenCapture)]"
  "eventListeners demo_shared_twice = [''screenshare_stopped'' \<mapsto> [0]]"
  "cameraManager demo_shared_twice = Some \<lparr>cam_width = ''640'', cam_quality = ''0.4'',
      cam_facingMode = ''environment''\<rparr>"
  "screenManager demo_shared_twice = Some \<lparr>scr_width = ''640'', scr_quality = ''0.4''\<rparr>"
  "modelTranscriber demo_shared_twice = None" "userTranscriber demo_shared_twice = None"
  by (simp_all add: demo_shared_twice_eq demo_sharing_simps)

theorem failed_start_leaves_orphaned_timer:
  "connected demo_shared_twice \<and>
   live ScreenCapture demo_shared_twice = [TimerId 1, TimerId 2] \<and>
   fst (startCameraCapture (Some (Error ''Permission denied'')) demo_shared_twice)
     = Some (ErrorConcat ''Failed to start camera capture: '' (Error ''Permission denied'')) \<and>
   screenInterval (snd (startCameraCapture (Some (Error ''Permission denied'')) demo_shared_twice))
     = None \<and>
   live ScreenCapture (snd (startCameraCapture (Some (Error ''Permission denied'')) demo_shared_twice))
     = [TimerId 1]"
proof -
  note st = failed_camera_state [OF demo_shared_twice_simps(1) demo_shared_twice_simps(7)
      demo_shared_twice_simps(8)]
  note run = startCameraCapture_failed [OF demo_shared_twice_simps(2) demo_shared_twice_simps(1)
      demo_shared_twice_simps(7), of "Error ''Permission denied''"]
  show ?thesis
    unfolding run fst_conv snd_conv st
    by (simp add: live_def demo_shared_twice_simps)
qed

section \<open>External stop of the screen source\<close>

lemma map_of_cleared: "map_of (filter (\<lambda>p. fst p \<noteq> t) xs) t = None"
  by (induction xs) auto

lemma onStop_eq:
  "onStop s =
     (case screenInterval s of
        None \<Rightarrow> s\<lparr>calls := calls s @ map (\<lambda>cb. Listener cb ''screenshare_stopped'' None)
                   (case eventListeners s ''screenshare_stopped'' of None \<Rightarrow> [] | Some cbs \<Rightarrow> cbs)\<rparr>
      | Some t \<Rightarrow>
          s\<lparr>screenInterval := None,
            timers := filter (\<lambda>p. fst p \<noteq> t) (timers s),
            calls := calls s @ ClearInterval t #
              map (\<lambda>cb. Listener cb ''screenshare_stopped'' None)
                (case eventListeners s ''screenshare_stopped'' of None \<Rightarrow> [] | Some cbs \<Rightarrow> cbs)\<rparr>)"
  by (simp add: onStop_def emit_def clearInterval_def split: option.splits)

lemma no_live_no_entry:
  "live k s = [] \<Longrightarrow> map_of (timers s) t \<noteq> Some k"
proof
  assume e: "live k s = []" and m: "map_of (timers s) t = Some k"
  from m have "(t, k) \<in> set (timers s)" by (rule map_of_SomeD)
  then have "t \<in> set (live k s)" by (force simp: live_def)
  with e show False by simp
qed

text \<open>
  C7 (as amended). The stop callback given to the screen manager takes no argument from a
  caller. It
  leaves \<open>screenInterval\<close> \<open>null\<close>; it clears the timer the field held, if any, and then
  invokes every listener of \<open>screenshare_stopped\<close>, and does nothing else; the timer it
  cleared is gone from the timer table, so a later tick of it runs nothing; and when the
  field held every live screen-capture timer, no screen-capture timer is live afterwards,
  so no tick captures the screen any more.
\<close>

theorem external_stop_cancels_screen_timer:
  "screenInterval (onStop s) = None \<and>
   new_calls s (onStop s)
     = (case screenInterval s of None \<Rightarrow> [] | Some t \<Rightarrow> [ClearInterval t]) @
       map (\<lambda>cb. Listener cb ''screenshare_stopped'' None)
         (case eventListeners s ''screenshare_stopped'' of None \<Rightarrow> [] | Some cbs \<Rightarrow> cbs) \<and>
   (\<forall>t. screenInterval s = Some t \<longrightarrow>
      map_of (timers (onStop s)) t = None \<and>
      fire t imageBase64 (onStop s) = (None, onStop s)) \<and>
   (owns_screen_timers s \<longrightarrow>
      live ScreenCapture (onStop s) = [] \<and>
      (\<forall>t. map_of (timers (onStop s)) t \<noteq> Some ScreenCapture))"
proof -
  have a: "screenInterval (onStop s) = None"
    by (simp add: onStop_eq split: option.splits)
  have b: "new_calls s (onStop s)
     = (case screenInterval s of None \<Rightarrow> [] | Some t \<Rightarrow> [ClearInterval t]) @
       map (\<lambda>cb. Listener cb ''screenshare_stopped'' None)
         (case eventListeners s ''screenshare_stopped'' of None \<Rightarrow> [] | Some cbs \<Rightarrow> cbs)"
    by (simp add: onStop_eq new_calls_def split: option.splits)
  have c: "\<forall>t. screenInterval s = Some t \<longrightarrow>
      map_of (timers (onStop s)) t = None \<and> fire t imageBase64 (onStop s) = (None, onStop s)"
  proof (intro allI impI)
    fix t assume t: "screenInterval s = Some t"
    then have "map_of (timers (onStop s)) t = None"
      by (simp add: onStop_eq map_of_cleared)
    then show "map_of (timers (onStop s)) t = None \<and> fire t imageBase64 (onStop s) = (None, onStop s)"
      by (simp add: fire_def)
  qed
  have d: "owns_screen_timers s \<longrightarrow>
      live ScreenCapture (onStop s) = [] \<and>
      (\<forall>t. map_of (timers (onStop s)) t \<noteq> Some ScreenCapture)"
  proof
    assume "owns_screen_timers s"
    then have own: "set (live ScreenCapture s) \<subseteq> set_option (screenInterval s)"
      by (simp add: owns_screen_timers_def)
    have "set (timers (onStop s)) \<subseteq> {p \<in> set (timers s). Some (fst p) \<noteq> screenInterval s}"
      by (auto simp: onStop_eq split: option.splits)
    then have "live ScreenCapture (onStop s) = []"
      using own by (rule live_empty_after_clearing)
    then show "live ScreenCapture (onStop s) = [] \<and>
      (\<forall>t. map_of (timers (onStop s)) t \<noteq> Some ScreenCapture)"
      by (simp add: no_live_no_entry)
  qed
  from a b c d show ?thesis by blast
qed

theorem external_stop_cancels_screen_timer_witness:
  "screenInterval demo_sharing = Some (TimerId 1) \<and> owns_screen_timers demo_sharing \<and>
   fst (fire (TimerId 1) ''frame'' demo_sharing) = None \<and>
   new_calls demo_sharing (snd (fire (TimerId 1) ''frame'' demo_sharing))
     = [Screen_capture, Client_sendImage ''frame''] \<and>
   screenInterval (onStop demo_sharing) = None \<and>
   new_calls demo_sharing (onStop demo_sharing)
     = [ClearInterval (TimerId 1), Listener 0 ''screenshare_stopped'' None] \<and>
   fire (TimerId 1) ''frame'' (onStop demo_sharing) = (None, onStop demo_sharing) \<and>
   live ScreenCapture (onStop demo_sharing) = []"
  using external_stop_cancels_screen_timer [of demo_sharing "''frame''"] demo_sharing_owns(2)
  by (simp add: demo_sharing_simps fire_def send_frame_def record_call_def new_calls_def)

text \<open>
  C7 as first stated fails where screen sharing was started twice: the callback clears
  the timer in the field, and the first timer, whose handle was overwritten, still fires
  and still captures the screen.
\<close>

theorem stop_callback_misses_orphaned_timer:
  "screenInterval demo_shared_twice = Some (TimerId 2) \<and>
   live ScreenCapture demo_shared_twice = [TimerId 1, TimerId 2] \<and>
   screenInterval (onStop demo_shared_twice) = None \<and>
   live ScreenCapture (onStop demo_shared_twice) = [TimerId 1] \<and>
   fst (fire (TimerId 1) ''frame'' (onStop demo_shared_twice)) = None \<and>
   new_calls (onStop demo_shared_twice) (snd (fire (TimerId 1) ''frame'' (onStop demo_shared_twice)))
     = [Screen_capture, Client_sendImage ''frame'']"
  by (simp add: onStop_eq fire_def send_frame_def record_call_def new_calls_def live_def
      demo_shared_twice_simps)

section \<open>Inbound audio and interruption\<close>

lemma on_audio_with_sink:
  "audioStreamer s = Some st \<Longrightarrow>
     on_audio data s =
       (None,
        s\<lparr>audioStreamer := Some (st\<lparr>isInitialized := True\<rparr>),
          calls := calls s @ (if isInitialized st then [] else [Streamer_initialize]) @
                   [Streamer_streamAudio data] @
                   (case modelTranscriber s of
                      None \<Rightarrow> []
                    | Some tr \<Rightarrow> if isConnected tr then [ModelTranscriber_sendAudio data] else [])\<rparr>)"
  by (cases "isInitialized st")
     (auto simp: on_audio_def streamer_initialize_def record_call_def Uint8Array_def Let_def
       split: option.splits)

text \<open>
  Without a sink (after \<open>connect()\<close> and before \<open>initialize()\<close>, or after
  \<open>disconnect()\<close>) both handlers throw on their first statement and call nothing.
\<close>

lemma handlers_without_sink:
  "audioStreamer s = None \<Longrightarrow>
     on_audio data s
       = (Some (ErrorConcat ''Audio processing error:'' (TypeError ''isInitialized'')), s) \<and>
     on_interrupted s = (Some (TypeError ''stop''), s)"
  by (simp add: on_audio_def on_interrupted_def)

text \<open>
  C6 (as amended). For every inbound \<open>audio\<close> event with chunk \<open>data\<close> that arrives
  while the orchestrator has its audio sink (from \<open>initialize()\<close> until \<open>disconnect()\<close>):
  the handler returns normally; it calls the sink's \<open>initialize()\<close> exactly when the
  sink's \<open>isInitialized\<close> flag was false, and before anything else; it then calls
  \<open>streamAudio\<close> exactly once, with the bytes of \<open>data\<close> unchanged; the only other call it
  may make is the forwarding of \<open>data\<close> to a connected model transcriber.
\<close>

theorem audio_chunk_forwarded_once:
  assumes "audioStreamer s = Some st"
  shows
   "fst (on_audio data s) = None \<and>
    new_calls s (snd (on_audio data s))
      = (if isInitialized st then [] else [Streamer_initialize]) @
        [Streamer_streamAudio data] @
        (case modelTranscriber s of
           None \<Rightarrow> []
         | Some tr \<Rightarrow> if isConnected tr then [ModelTranscriber_sendAudio data] else []) \<and>
    (Streamer_initialize \<in> set (new_calls s (snd (on_audio data s))) \<longleftrightarrow> \<not> isInitialized st) \<and>
    filter is_streamAudio (new_calls s (snd (on_audio data s))) = [Streamer_streamAudio data] \<and>
    audioStreamer (snd (on_audio data s)) = Some (st\<lparr>isInitialized := True\<rparr>)"
  by (auto simp: on_audio_with_sink [OF assms] new_calls_def is_streamAudio_def
      split: option.splits)

theorem audio_chunk_forwarded_once_witness:
  "audioStreamer demo_running = Some \<lparr>isInitialized = True\<rparr> \<and>
   new_calls demo_running (snd (on_audio [1, 2, 255] demo_running))
     = [Streamer_streamAudio [1, 2, 255]] \<and>
   audioStreamer (snd (on_interrupted demo_running)) = Some \<lparr>isInitialized = False\<rparr> \<and>
   new_calls (snd (on_interrupted demo_running))
       (snd (on_audio [1, 2, 255] (snd (on_interrupted demo_running))))
     = [Streamer_initialize, Streamer_streamAudio [1, 2, 255]]"
proof -
  have a: "audioStreamer demo_running = Some \<lparr>isInitialized = True\<rparr>"
    and m: "modelTranscriber demo_running = None"
    by (simp_all add: demo_running_simps)
  have b: "audioStreamer (snd (on_interrupted demo_running)) = Some \<lparr>isInitialized = False\<rparr>"
    and m': "modelTranscriber (snd (on_interrupted demo_running)) = None"
    by (simp_all add: on_interrupted_def emit_def record_call_def demo_running_simps)
  from audio_chunk_forwarded_once [OF a, of "[1, 2, 255]"]
    audio_chunk_forwarded_once [OF b, of "[1, 2, 255]"] a b m m'
  show ?thesis by simp
qed

text \<open>
  C6 as first stated fails between \<open>connect()\<close> and \<open>initialize()\<close>: the handler is
  installed, there is no sink yet, and a chunk that arrives is not forwarded.
\<close>

theorem audio_before_initialize_not_forwarded:
  "client demo_connected
     = Some \<lparr>ws_name = Some ''GeminiAgent'', ws_open = True,
             ws_handlers = [''audio'', ''interrupted'', ''turn_complete'', ''tool_call'']\<rparr> \<and>
   audioStreamer demo_connected = None \<and>
   on_audio [1, 2, 255] demo_connected
     = (Some (ErrorConcat ''Audio processing error:'' (TypeError ''isInitialized'')),
        demo_connected) \<and>
   filter is_streamAudio (calls (snd (on_audio [1, 2, 255] demo_connected))) = []"
proof -
  have n: "audioStreamer demo_connected = None"
    by (simp add: demo_connected_eq demo_agent_simps)
  show ?thesis
    using handlers_without_sink [OF n, of "[1, 2, 255]"]
    by (simp add: demo_connected_eq demo_agent_simps is_streamAudio_def)
qed

lemma stale_after_append:
  "stale_after b (xs @ ys) = stale_after (stale_after b xs) ys"
  by (induction xs arbitrary: b) simp_all

lemma no_stale_stream_append:
  "no_stale_stream b (xs @ ys) \<longleftrightarrow> no_stale_stream b xs \<and> no_stale_stream (stale_after b xs) ys"
  by (induction xs arbitrary: b) (simp_all add: stale_after_append)

lemma listeners_neutral:
  "stale_after b (map (\<lambda>cb. Listener cb ev d) cbs) = b"
  "no_stale_stream b (map (\<lambda>cb. Listener cb ev d) cbs)"
  by (induction cbs) (simp_all add: is_streamAudio_def)

lemma on_interrupted_with_sink:
  "audioStreamer s = Some st \<Longrightarrow>
     on_interrupted s =
       (None,
        s\<lparr>audioStreamer := Some (st\<lparr>isInitialized := False\<rparr>),
          calls := calls s @ Streamer_stop #
            map (\<lambda>cb. Listener cb ''interrupted'' None)
              (case eventListeners s ''interrupted'' of None \<Rightarrow> [] | Some cbs \<Rightarrow> cbs)\<rparr>)"
  by (simp add: on_interrupted_def emit_def record_call_def split: option.splits)

lemma on_turn_complete_eq:
  "on_turn_complete s =
     (None, s\<lparr>calls := calls s @ map (\<lambda>cb. Listener cb ''turn_complete'' None)
              (case eventListeners s ''turn_complete'' of None \<Rightarrow> [] | Some cbs \<Rightarrow> cbs)\<rparr>)"
  by (simp add: on_turn_complete_def emit_def split: option.splits)

lemma handleToolCall_frame:
  "audioStreamer (snd (handleToolCall tc s)) = audioStreamer s"
  "\<exists>xs. calls (snd (handleToolCall tc s)) = calls s @ xs \<and>
        stale_after b xs = b \<and> no_stale_stream b xs"
  by (auto simp: handleToolCall_def record_call_def Let_def is_streamAudio_def
      split: sum.splits option.splits list.splits)

text \<open>
  One delivered event, with the sink present: the log grows by calls that the monitor
  accepts, and a stale pipeline still has its flag cleared afterwards.
\<close>

lemma dispatch_step:
  assumes "audioStreamer s = Some st" "stale \<longrightarrow> \<not> isInitialized st"
  shows "\<exists>xs st'. calls (snd (dispatch ev s)) = calls s @ xs \<and>
           audioStreamer (snd (dispatch ev s)) = Some st' \<and>
           no_stale_stream stale xs \<and>
           (stale_after stale xs \<longrightarrow> \<not> isInitialized st')"
proof (cases ev)
  case (Audio data)
  show ?thesis
    using assms(2)
    by (auto simp: Audio on_audio_with_sink [OF assms(1)] is_streamAudio_def
        split: option.splits)
next
  case Interrupted
  show ?thesis
    by (simp add: Interrupted on_interrupted_with_sink [OF assms(1)] is_streamAudio_def
        listeners_neutral)
next
  case Turn_complete
  show ?thesis
    using assms by (simp add: Turn_complete on_turn_complete_eq listeners_neutral)
next
  case (Tool_call tc)
  from handleToolCall_frame(2) [of tc s stale] obtain xs where
    "calls (snd (handleToolCall tc s)) = calls s @ xs" "stale_after stale xs = stale"
    "no_stale_stream stale xs" by blast
  then show ?thesis
    using assms by (auto simp: Tool_call handleToolCall_frame(1))
qed

lemma deliver_no_stale_stream:
  assumes "audioStreamer s = Some st" "stale \<longrightarrow> \<not> isInitialized st"
  shows "\<exists>xs. calls (deliver evs s) = calls s @ xs \<and> no_stale_stream stale xs"
  using assms
proof (induction evs arbitrary: s st stale)
  case Nil
  then show ?case by simp
next
  case (Cons ev evs)
  from dispatch_step [OF Cons.prems, of ev] obtain xs st' where
    xs: "calls (snd (dispatch ev s)) = calls s @ xs"
    and st': "audioStreamer (snd (dispatch ev s)) = Some st'"
    and ok: "no_stale_stream stale xs"
    and inv: "stale_after stale xs \<longrightarrow> \<not> isInitialized st'" by blast
  from Cons.IH [OF st' inv] obtain ys where
    ys: "calls (deliver evs (snd (dispatch ev s))) = calls (snd (dispatch ev s)) @ ys"
    and ok': "no_stale_stream (stale_after stale xs) ys" by blast
  have "calls (deliver (ev # evs) s) = calls s @ (xs @ ys)"
    using xs ys by simp
  moreover have "no_stale_stream stale (xs @ ys)"
    using ok ok' by (simp add: no_stale_stream_append)
  ultimately show ?case by blast
qed

text \<open>
  C1 (as amended). Whenever the orchestrator receives an \<open>interrupted\<close> event while it
  has its audio sink (from \<open>initialize()\<close> until \<open>disconnect()\<close>): the handler returns
  normally, calls the sink's \<open>stop()\<close> (and then only the listeners of
  \<open>interrupted\<close>) and leaves the sink's \<open>isInitialized\<close> flag false. An audio chunk
  handled next makes the handler call \<open>initialize()\<close> and then \<open>streamAudio\<close> with that
  chunk. For every sequence of inbound events delivered after the interruption, no
  \<open>streamAudio\<close> call is made while the pipeline is still the stopped one: an
  \<open>initialize()\<close> call lies between each \<open>stop()\<close> and the first chunk streamed after it.
\<close>

theorem interruption_forces_reprime:
  assumes "audioStreamer s = Some st"
  shows
   "fst (on_interrupted s) = None \<and>
    new_calls s (snd (on_interrupted s))
      = Streamer_stop #
        map (\<lambda>cb. Listener cb ''interrupted'' None)
          (case eventListeners s ''interrupted'' of None \<Rightarrow> [] | Some cbs \<Rightarrow> cbs) \<and>
    audioStreamer (snd (on_interrupted s)) = Some (st\<lparr>isInitialized := False\<rparr>) \<and>
    (\<forall>data. take 2 (new_calls (snd (on_interrupted s))
                      (snd (on_audio data (snd (on_interrupted s)))))
             = [Streamer_initialize, Streamer_streamAudio data]) \<and>
    (\<forall>evs. no_stale_stream True
             (new_calls (snd (on_interrupted s)) (deliver evs (snd (on_interrupted s)))))"
proof -
  let ?s1 = "snd (on_interrupted s)"
  have sink: "audioStreamer ?s1 = Some (st\<lparr>isInitialized := False\<rparr>)"
    by (simp add: on_interrupted_with_sink [OF assms])
  have a: "fst (on_interrupted s) = None"
    by (simp add: on_interrupted_with_sink [OF assms])
  have b: "new_calls s ?s1 = Streamer_stop #
        map (\<lambda>cb. Listener cb ''interrupted'' None)
          (case eventListeners s ''interrupted'' of None \<Rightarrow> [] | Some cbs \<Rightarrow> cbs)"
    by (simp add: on_interrupted_with_sink [OF assms] new_calls_def)
  have c: "\<forall>data. take 2 (new_calls ?s1 (snd (on_audio data ?s1)))
             = [Streamer_initialize, Streamer_streamAudio data]"
    by (simp add: on_audio_with_sink [OF sink] new_calls_def)
  have d: "\<forall>evs. no_stale_stream True (new_calls ?s1 (deliver evs ?s1))"
  proof
    fix evs
    have "True \<longrightarrow> \<not> isInitialized (st\<lparr>isInitialized := False\<rparr>)" by simp
    from deliver_no_stale_stream [OF sink this, of evs] obtain xs where
      "calls (deliver evs ?s1) = calls ?s1 @ xs" "no_stale_stream True xs" by blast
    then show "no_stale_stream True (new_calls ?s1 (deliver evs ?s1))"
      by (simp add: new_calls_def)
  qed
  from a b sink c d show ?thesis by blast
qed

theorem interruption_forces_reprime_witness:
  "audioStreamer demo_running = Some \<lparr>isInitialized = True\<rparr> \<and>
   new_calls demo_running (snd (on_interrupted demo_running)) = [Streamer_stop] \<and>
   audioStreamer (snd (on_interrupted demo_running)) = Some \<lparr>isInitialized = False\<rparr> \<and>
   new_calls (snd (on_interrupted demo_running))
      (deliver [Audio [1, 2], Audio [3]] (snd (on_interrupted demo_running)))
     = [Streamer_initialize, Streamer_streamAudio [1, 2], Streamer_streamAudio [3]] \<and>
   no_stale_stream True
     (new_calls (snd (on_interrupted demo_running))
        (deliver [Audio [1, 2], Audio [3]] (snd (on_interrupted demo_running)))) \<and>
   \<not> no_stale_stream True [Streamer_streamAudio [1, 2]]"
proof -
  have a: "audioStreamer demo_running = Some \<lparr>isInitialized = True\<rparr>"
    by (simp add: demo_running_simps)
  have i: "on_interrupted demo_running
      = (None, demo_running\<lparr>audioStreamer := Some \<lparr>isInitialized = False\<rparr>,
                 calls := calls demo_running @ [Streamer_stop]\<rparr>)"
    by (simp add: on_interrupted_with_sink [OF a] demo_running_simps)
  have d: "new_calls (snd (on_interrupted demo_running))
      (deliver [Audio [1, 2], Audio [3]] (snd (on_interrupted demo_running)))
     = [Streamer_initialize, Streamer_streamAudio [1, 2], Streamer_streamAudio [3]]"
    by (simp add: i on_audio_def streamer_initialize_def record_call_def Uint8Array_def
        new_calls_def demo_running_simps)
  from interruption_forces_reprime [OF a] a d
  show ?thesis by (elim conjE) (simp add: is_streamAudio_def demo_running_simps)
qed

text \<open>
  C1 as first stated fails between \<open>connect()\<close> and \<open>initialize()\<close>: the handler is
  installed, there is no sink yet, and an \<open>interrupted\<close> event makes the handler throw
  without a call of \<open>stop()\<close>.
\<close>

theorem interrupted_before_initialize_throws:
  "client demo_connected
     = Some \<lparr>ws_name = Some ''GeminiAgent'', ws_open = True,
             ws_handlers = [''audio'', ''interrupted'', ''turn_complete'', ''tool_call'']\<rparr> \<and>
   audioStreamer demo_connected = None \<and>
   on_interrupted demo_connected = (Some (TypeError ''stop''), demo_connected) \<and>
   Streamer_stop \<notin> set (calls (snd (on_interrupted demo_connected)))"
proof -
  have n: "audioStreamer demo_connected = None"
    by (simp add: demo_connected_eq demo_agent_simps)
  show ?thesis
    using handlers_without_sink [OF n, of "[]"]
    by (simp add: demo_connected_eq demo_agent_simps)
qed

section \<open>Tool calls\<close>

text \<open>
  C3. For an inbound \<open>toolCall\<close> whose batch is \<open>fc # rest\<close>, with the client present and
  the tool manager resolving \<open>fc\<close> to \<open>r\<close>: \<open>handleToolCall\<close> returns normally, having
  called the tool manager exactly once, with \<open>fc\<close>, and then \<open>sendToolResponse\<close> exactly
  once, with \<open>r\<close>; it calls nothing else, whatever \<open>rest\<close> holds. With a tool manager
  that answers under the call's id, a batch of one call with id \<open>abc\<close> yields exactly one
  response, of id \<open>abc\<close> (the instance that follows the theorem).
\<close>

theorem tool_call_first_only:
  assumes "client s = Some c" "functionCalls tc = fc # rest"
      and "tm_handleToolCall (toolManager s) (Some fc) = Inr r"
  shows
   "handleToolCall tc s
      = (None, s\<lparr>calls := calls s @ [ToolManager_handleToolCall (Some fc),
                                       Client_sendToolResponse r]\<rparr>) \<and>
    new_calls s (snd (handleToolCall tc s))
      = [ToolManager_handleToolCall (Some fc), Client_sendToolResponse r] \<and>
    filter is_handleToolCall (new_calls s (snd (handleToolCall tc s)))
      = [ToolManager_handleToolCall (Some fc)] \<and>
    filter is_sendToolResponse (new_calls s (snd (handleToolCall tc s)))
      = [Client_sendToolResponse r]"
  using assms
  by (simp add: handleToolCall_def record_call_def new_calls_def is_handleToolCall_def
      is_sendToolResponse_def)

theorem tool_call_first_only_witness:
  "handleToolCall \<lparr>functionCalls = [\<lparr>fc_id = ''abc'', fc_name = ''googleSearch'', fc_args = ''q''\<rparr>]\<rparr>
     demo_running
     = (None, demo_running\<lparr>calls := calls demo_running @
          [ToolManager_handleToolCall
             (Some \<lparr>fc_id = ''abc'', fc_name = ''googleSearch'', fc_args = ''q''\<rparr>),
           Client_sendToolResponse \<lparr>tr_id = ''abc'', tr_response = ''result''\<rparr>]\<rparr>) \<and>
   filter is_sendToolResponse
     (new_calls demo_running
        (snd (handleToolCall
                \<lparr>functionCalls = [\<lparr>fc_id = ''abc'', fc_name = ''googleSearch'', fc_args = ''q''\<rparr>,
                                  \<lparr>fc_id = ''def'', fc_name = ''googleSearch'', fc_args = ''r''\<rparr>]\<rparr>
                demo_running)))
     = [Client_sendToolResponse \<lparr>tr_id = ''abc'', tr_response = ''result''\<rparr>]"
proof -
  let ?abc = "\<lparr>fc_id = ''abc'', fc_name = ''googleSearch'', fc_args = ''q''\<rparr>"
  let ?def = "\<lparr>fc_id = ''def'', fc_name = ''googleSearch'', fc_args = ''r''\<rparr>"
  have c: "client demo_running = Some \<lparr>ws_name = Some ''GeminiAgent'', ws_open = True,
      ws_handlers = [''audio'', ''interrupted'', ''turn_complete'', ''tool_call'']\<rparr>"
    by (simp add: demo_running_simps)
  have h: "tm_handleToolCall (toolManager demo_running) (Some ?abc)
      = Inr \<lparr>tr_id = ''abc'', tr_response = ''result''\<rparr>"
    by (simp add: demo_running_eq demo_connected_eq demo_agent_def assign_fields_def default_to_def
        demo_toolManager_def)
  have one: "functionCalls \<lparr>functionCalls = [?abc]\<rparr> = ?abc # []"
    and two: "functionCalls \<lparr>functionCalls = [?abc, ?def]\<rparr> = ?abc # [?def]"
    by simp_all
  from tool_call_first_only [OF c one h] tool_call_first_only [OF c two h]
  show ?thesis by (elim conjE) simp
qed

section \<open>Initialization\<close>











end
